theory Spec2Isabelle
  imports Main "HOL-Library.Word"
begin

section \<open>The filebrowser HTTP layer: resource and share handlers\<close>

text \<open>
  A shallow embedding of the Go package \<open>http\<close> of filebrowser (share.go and the
  resource handlers) and of \<open>types/user.go\<close>. Every handler becomes a function from
  the request and the state it touches (share store, filesystem) to the response it
  writes and the new state. What the handlers call but the given sources do not
  contain (the user resolver, the path rules, the share store, the Runner, the
  filesystem behind \<open>afero.Fs\<close>, the random source) is a parameter or a small model
  marked as such.
\<close>

subsection \<open>Errors and status codes\<close>

datatype error =
    ErrNotExist                \<comment> \<open>types.ErrNotExist\<close>
  | ErrInvalidOption           \<comment> \<open>types.ErrInvalidOption\<close>
  | OsPermission               \<comment> \<open>an error with os.IsPermission\<close>
  | OsNotExist                 \<comment> \<open>an error with os.IsNotExist\<close>
  | OsExist                    \<comment> \<open>an error with os.IsExist\<close>
  | EscapeError string         \<comment> \<open>url.EscapeError\<close>
  | NumError string            \<comment> \<open>*strconv.NumError\<close>
  | OtherError string          \<comment> \<open>any other error value\<close>

definition StatusOK :: nat where "StatusOK = 200"
definition StatusBadRequest :: nat where "StatusBadRequest = 400"
definition StatusForbidden :: nat where "StatusForbidden = 403"
definition StatusNotFound :: nat where "StatusNotFound = 404"
definition StatusMethodNotAllowed :: nat where "StatusMethodNotAllowed = 405"
definition StatusConflict :: nat where "StatusConflict = 409"
definition StatusInternalServerError :: nat where "StatusInternalServerError = 500"

text \<open>httpFsErr: the status of a filesystem error (\<open>None\<close> is Go's nil).\<close>

fun httpFsErr :: "error option \<Rightarrow> nat" where
  "httpFsErr None = StatusOK"
| "httpFsErr (Some OsPermission) = StatusForbidden"
| "httpFsErr (Some OsNotExist) = StatusNotFound"
| "httpFsErr (Some OsExist) = StatusConflict"
| "httpFsErr (Some _) = StatusInternalServerError"

subsection \<open>Strings\<close>

definition HasPrefix :: "string \<Rightarrow> string \<Rightarrow> bool" where
  "HasPrefix s p = (take (length p) s = p)"

definition TrimPrefix :: "string \<Rightarrow> string \<Rightarrow> string" where
  "TrimPrefix s p = (if HasPrefix s p then drop (length p) s else s)"

definition HasSuffix :: "string \<Rightarrow> string \<Rightarrow> bool" where
  "HasSuffix s suf = (length suf \<le> length s \<and> drop (length s - length suf) s = suf)"

definition TrimSuffix :: "string \<Rightarrow> string \<Rightarrow> string" where
  "TrimSuffix s suf = (if HasSuffix s suf then take (length s - length suf) s else s)"

text \<open>
  strconv.Atoi on a 64-bit platform: an optional sign, then one or more decimal
  digits, and the value must fit a signed 64-bit int.
\<close>

definition digit_of :: "char \<Rightarrow> int option" where
  "digit_of = map_of
     [(CHR ''0'', 0), (CHR ''1'', 1), (CHR ''2'', 2), (CHR ''3'', 3), (CHR ''4'', 4),
      (CHR ''5'', 5), (CHR ''6'', 6), (CHR ''7'', 7), (CHR ''8'', 8), (CHR ''9'', 9)]"

fun parse_digits :: "int \<Rightarrow> string \<Rightarrow> int option" where
  "parse_digits n [] = Some n"
| "parse_digits n (c # cs) =
     (case digit_of c of None \<Rightarrow> None | Some d \<Rightarrow> parse_digits (n * 10 + d) cs)"

definition strip_sign :: "string \<Rightarrow> bool \<times> string" where
  "strip_sign s =
     (case s of
        [] \<Rightarrow> (False, [])
      | c # cs \<Rightarrow>
          if c = CHR ''-'' then (True, cs)
          else if c = CHR ''+'' then (False, cs)
          else (False, s))"

definition Atoi :: "string \<Rightarrow> error + int" where
  "Atoi s =
     (case strip_sign s of
        (neg, ds) \<Rightarrow>
          if ds = [] then Inl (NumError ''invalid syntax'')
          else
            (case parse_digits 0 ds of
               None \<Rightarrow> Inl (NumError ''invalid syntax'')
             | Some n \<Rightarrow>
                 let v = (if neg then - n else n) in
                 if v < - (2 ^ 63) \<or> 2 ^ 63 - 1 < v
                 then Inl (NumError ''value out of range'')
                 else Inr v))"

subsection \<open>Time\<close>

text \<open>
  A time.Time is an instant, counted here in nanoseconds (an unbounded integer: Go
  keeps the seconds in 64 bits, so no addition below leaves its range). A
  time.Duration is a signed 64-bit count of nanoseconds; its multiplication wraps.
\<close>

type_synonym Time = int
type_synonym Duration = "64 word"

definition Second :: Duration where "Second = 1000000000"
definition Minute :: Duration where "Minute = 60 * Second"
definition Hour :: Duration where "Hour = 60 * Minute"

definition Duration_of :: "int \<Rightarrow> Duration" where
  "Duration_of n = word_of_int n"

definition time_Add :: "Time \<Rightarrow> Duration \<Rightarrow> Time" where
  "time_Add t d = t + sint d"

definition Before :: "Time \<Rightarrow> Time \<Rightarrow> bool" where
  "Before t u = (t < u)"

text \<open>The zero value of time.Time, the ExpireDate of a link that was given none.\<close>

definition zeroTime :: Time where
  "zeroTime = - 62135596800 * 1000000000"

subsection \<open>types: permissions, users, share links\<close>

record Permissions =
  Admin :: bool
  Execute :: bool
  Create :: bool
  Rename :: bool
  Modify :: bool
  Delete :: bool
  Share :: bool
  Download :: bool
  Commands :: "string list"

text \<open>
  The methods of afero.Fs (and of the file it opens) that the handlers call, over a
  filesystem state \<open>'fs\<close>: each returns its error (\<open>None\<close> is nil) and the state it
  leaves. The flags of OpenFile are those of package os.
\<close>

datatype open_flag = O_RDWR | O_CREATE | O_TRUNC

record FileStat =
  StatModTime :: int   \<comment> \<open>ModTime().UnixNano()\<close>
  StatSize :: int      \<comment> \<open>Size()\<close>

record 'fs Fs =
  fsRemoveAll :: "'fs \<Rightarrow> string \<Rightarrow> error option \<times> 'fs"
  fsMkdirAll :: "'fs \<Rightarrow> string \<Rightarrow> nat \<Rightarrow> error option \<times> 'fs"
  fsStat :: "'fs \<Rightarrow> string \<Rightarrow> error + FileStat"
  fsOpenFile :: "'fs \<Rightarrow> string \<Rightarrow> open_flag list \<Rightarrow> nat \<Rightarrow> error option \<times> 'fs"
  fsCopy :: "'fs \<Rightarrow> string \<Rightarrow> string \<Rightarrow> error option \<times> 'fs"
  fsFileStat :: "'fs \<Rightarrow> string \<Rightarrow> error + FileStat"
  fsRename :: "'fs \<Rightarrow> string \<Rightarrow> string \<Rightarrow> error option \<times> 'fs"

text \<open>
  The User struct. Its Sorting field (a type declared outside the given sources) is
  left out. The rules are of a type \<open>'r\<close> the sources do not declare.
\<close>

record ('r, 'fs) User =
  ID :: nat
  Username :: string
  Password :: string
  Scope :: string
  Locale :: string
  LockPassword :: bool
  ViewMode :: string
  Perm :: Permissions
  Fs :: "'fs Fs"
  Rules :: "'r list"

record ShareLink =
  Path :: string
  Hash :: string
  Expires :: bool
  ExpireDate :: Time

subsection \<open>Requests and responses\<close>

record Cookie =
  Name :: string
  Value :: string
  MaxAge :: int
  CPath :: string
  Secure :: bool

record Request =
  Method :: string
  URLPath :: string
  Query :: "(string \<times> string) list"
  Cookies :: "(string \<times> string) list"
  TLS :: bool
  ReqBody :: string

text \<open>\<open>r.URL.Query().Get(k)\<close>: the first value of the key, the empty string without one.\<close>

definition Get :: "(string \<times> string) list \<Rightarrow> string \<Rightarrow> string" where
  "Get q k = (case map_of q k of None \<Rightarrow> [] | Some v \<Rightarrow> v)"

text \<open>
  url.QueryUnescape: \<open>+\<close> becomes a space, \<open>%XY\<close> the byte with that hexadecimal
  code, and a \<open>%\<close> that two hexadecimal digits do not follow is an EscapeError.
\<close>

definition unhex :: "char \<Rightarrow> nat option" where
  "unhex = map_of
     [(CHR ''0'', 0), (CHR ''1'', 1), (CHR ''2'', 2), (CHR ''3'', 3), (CHR ''4'', 4),
      (CHR ''5'', 5), (CHR ''6'', 6), (CHR ''7'', 7), (CHR ''8'', 8), (CHR ''9'', 9),
      (CHR ''a'', 10), (CHR ''b'', 11), (CHR ''c'', 12), (CHR ''d'', 13), (CHR ''e'', 14),
      (CHR ''f'', 15), (CHR ''A'', 10), (CHR ''B'', 11), (CHR ''C'', 12), (CHR ''D'', 13),
      (CHR ''E'', 14), (CHR ''F'', 15)]"

fun QueryUnescape :: "string \<Rightarrow> error + string" where
  "QueryUnescape [] = Inr []"
| "QueryUnescape (c # cs) =
     (if c = CHR ''%'' then
        (case cs of
           h1 # h2 # rest \<Rightarrow>
             (case (unhex h1, unhex h2) of
                (Some a, Some b) \<Rightarrow>
                  (case QueryUnescape rest of
                     Inl e \<Rightarrow> Inl e
                   | Inr r \<Rightarrow> Inr (char_of (a * 16 + b) # r))
              | _ \<Rightarrow> Inl (EscapeError (take 3 (c # cs))))
         | _ \<Rightarrow> Inl (EscapeError (take 3 (c # cs))))
      else
        (case QueryUnescape cs of
           Inl e \<Rightarrow> Inl e
         | Inr r \<Rightarrow> Inr ((if c = CHR ''+'' then CHR '' '' else c) # r)))"

text \<open>
  Modelled from the spec: the FileInfo view and its Listing (types/file.go is not
  among the sources). The spec, section 3: path, name, size, modification time, type
  classification, optional embedded content, and for directories a listing with the
  active sort key and order. Checksums holds what a checksum request computed.
\<close>

record Listing =
  Items :: "string list"
  Sort :: string
  Order :: string

record FileInfo =
  FPath :: string
  FName :: string
  Size :: int
  ModTime :: Time
  IsDir :: bool
  Type :: string
  Content :: string
  Checksums :: "(string \<times> string) list"
  Listing :: Listing

text \<open>
  What a handler has written to its http.ResponseWriter: the status (200 when the
  handler never sets one), the headers and cookies it set, and the body.
\<close>

datatype Body =
    NoBody
  | Text string
  | JSONLinks "ShareLink list"
  | JSONLink ShareLink
  | JSONFile FileInfo

record Response =
  status :: nat
  header :: "(string \<times> string) list"
  cookies :: "Cookie list"
  body :: Body

definition w0 :: Response where
  "w0 = \<lparr>status = StatusOK, header = [], cookies = [], body = NoBody\<rparr>"

text \<open>
  httpErr and renderJSON are helpers of the package outside the given sources: the
  first answers with the status, the second with status 200 and the value as JSON.
\<close>

definition httpErr :: "Response \<Rightarrow> nat \<Rightarrow> Response" where
  "httpErr w code = w\<lparr>status := code\<rparr>"

definition renderJSON :: "Response \<Rightarrow> Body \<Rightarrow> Response" where
  "renderJSON w b = w\<lparr>status := StatusOK, body := b\<rparr>"

definition Write :: "Response \<Rightarrow> string \<Rightarrow> Response" where
  "Write w bs = w\<lparr>status := StatusOK, body := Text bs\<rparr>"

subsection \<open>The share store\<close>

text \<open>
  Modelled from the spec: the ShareLink store (section 6: get-by-path,
  get-permanent-by-path, save, delete-by-hash; the storage engine is not among the
  sources). The records are kept in a list, keyed by hash. \<open>fault\<close> is the storage
  error an operation meets, if any; an operation that meets one changes nothing.
\<close>

datatype store_op = OpGetByPath | OpGetPermanent | OpSave | OpDelete

record ShareStore =
  links :: "ShareLink list"
  fault :: "store_op \<Rightarrow> error option"

definition GetByPath :: "ShareStore \<Rightarrow> string \<Rightarrow> error + ShareLink list" where
  "GetByPath st p =
     (case fault st OpGetByPath of
        Some e \<Rightarrow> Inl e
      | None \<Rightarrow>
          (case filter (\<lambda>l. Path l = p) (links st) of
             [] \<Rightarrow> Inl ErrNotExist
           | l # ls \<Rightarrow> Inr (l # ls)))"

definition GetPermanent :: "ShareStore \<Rightarrow> string \<Rightarrow> error + ShareLink" where
  "GetPermanent st p =
     (case fault st OpGetPermanent of
        Some e \<Rightarrow> Inl e
      | None \<Rightarrow>
          (case filter (\<lambda>l. Path l = p \<and> \<not> Expires l) (links st) of
             [] \<Rightarrow> Inl ErrNotExist
           | l # ls \<Rightarrow> Inr l))"

definition Save :: "ShareStore \<Rightarrow> ShareLink \<Rightarrow> error option \<times> ShareStore" where
  "Save st l =
     (case fault st OpSave of
        Some e \<Rightarrow> (Some e, st)
      | None \<Rightarrow> (None, st\<lparr>links := filter (\<lambda>x. Hash x \<noteq> Hash l) (links st) @ [l]\<rparr>))"

definition DeleteHash :: "ShareStore \<Rightarrow> string \<Rightarrow> error option \<times> ShareStore" where
  "DeleteHash st h =
     (case fault st OpDelete of
        Some e \<Rightarrow> (Some e, st)
      | None \<Rightarrow> (None, st\<lparr>links := filter (\<lambda>x. Hash x \<noteq> h) (links st)\<rparr>))"

subsection \<open>The environment of a request\<close>

text \<open>
  What the handlers use of \<open>Env\<close> and of packages outside the given sources, for one
  request: the user resolver (on failure it has answered itself, with the status
  given), the rule check behind User.IsAllowed, the configured base URL,
  filepath.Join, the outcome of crypto/rand's Read, base64's URL encoding, the error
  the Runner's hooks report for an operation name, source and destination,
  types.NewFileInfo, FileInfo.DetectSubtitles, Listing.ApplySort, the table of the
  checksum algorithms and the read of a file's bytes.
\<close>

record ('r, 'fs) Env =
  getUser :: "Request \<Rightarrow> nat + ('r, 'fs) User"
  isAllowed :: "string \<Rightarrow> 'r list \<Rightarrow> bool"
  BaseURL :: string
  Join :: "string \<Rightarrow> string \<Rightarrow> string"
  rand_Read :: "nat \<Rightarrow> error + nat list"
  EncodeToString :: "nat list \<Rightarrow> string"
  hook_error :: "string \<Rightarrow> string \<Rightarrow> string \<Rightarrow> error option"
  NewFileInfo :: "'fs \<Rightarrow> ('r, 'fs) User \<Rightarrow> string \<Rightarrow> error + FileInfo"
  DetectSubtitles :: "'fs \<Rightarrow> FileInfo \<Rightarrow> FileInfo"
  ApplySort :: "Listing \<Rightarrow> Listing"
  hashers :: "string \<Rightarrow> (string \<Rightarrow> string) option"
  readFile :: "'fs \<Rightarrow> string \<Rightarrow> error + string"

definition IsAllowed :: "('r, 'fs) Env \<Rightarrow> ('r, 'fs) User \<Rightarrow> string \<Rightarrow> bool" where
  "IsAllowed e u url = isAllowed e url (Rules u)"

subsection \<open>Path resolution (getResourceData, getShareData)\<close>

definition apiResourcePrefix :: string where
  "apiResourcePrefix = ''/api/resources''"

definition apiSharePrefix :: string where
  "apiSharePrefix = ''/api/share''"

text \<open>\<open>Inl\<close> is the response already written (the Go function returned \<open>ok = false\<close>).\<close>

definition getResourceData ::
  "('r, 'fs) Env \<Rightarrow> Response \<Rightarrow> Request \<Rightarrow> string
     \<Rightarrow> Response + (string \<times> ('r, 'fs) User)" where
  "getResourceData e w r prefix =
     (case getUser e r of
        Inl code \<Rightarrow> Inl (httpErr w code)
      | Inr user \<Rightarrow>
          let path = TrimPrefix (URLPath r) prefix;
              path = TrimSuffix path ''/'';
              path = (if path = [] then ''/'' else path)
          in if \<not> IsAllowed e user path then Inl (httpErr w StatusForbidden)
             else Inr (path, user))"

definition getShareData ::
  "('r, 'fs) Env \<Rightarrow> Response \<Rightarrow> Request \<Rightarrow> string \<Rightarrow> Response + string" where
  "getShareData e w r prefix =
     (case getResourceData e w r apiSharePrefix of
        Inl w' \<Rightarrow> Inl w'
      | Inr (relPath, user) \<Rightarrow>
          if \<not> Share (Perm user) then Inl (httpErr w StatusForbidden)
          else Inr (Join e (Scope user) relPath))"

subsection \<open>Listing the share links of a path (shareGetHandler)\<close>

text \<open>
  The loop \<open>for i, link := range s\<close> reads the slice as it was when the loop began
  (its array and its length \<open>n\<close>), while the body shortens \<open>s\<close>: the statement
  \<open>s = append(s[:i], s[i+1:]...)\<close> moves the elements after \<open>i\<close> one place down in
  that same array and leaves the last place as it was. The state is the array, the
  current length of \<open>s\<close> and the store. \<open>s[i+1:]\<close> panics when \<open>i + 1\<close> exceeds the
  current length; \<open>None\<close> is that panic. The clock is read once per request.
\<close>

definition remove_at :: "nat \<Rightarrow> 'a list \<Rightarrow> nat \<Rightarrow> 'a list" where
  "remove_at i arr n = take i arr @ drop (i + 1) (take n arr) @ drop (n - 1) arr"

fun expire_loop ::
  "Time \<Rightarrow> nat list \<Rightarrow> ShareLink list \<Rightarrow> nat \<Rightarrow> ShareStore
     \<Rightarrow> (ShareLink list) option \<times> ShareStore" where
  "expire_loop now [] arr n st = (Some (take n arr), st)"
| "expire_loop now (i # is) arr n st =
     (let link = arr ! i in
      if Expires link \<and> Before (ExpireDate link) now then
        (let st' = snd (DeleteHash st (Hash link)) in
         if n < i + 1 then (None, st')
         else expire_loop now is (remove_at i arr n) (n - 1) st')
      else expire_loop now is arr n st)"

datatype outcome = Responded Response | Panicked

definition shareGetHandler ::
  "('r, 'fs) Env \<Rightarrow> Time \<Rightarrow> Request \<Rightarrow> ShareStore \<Rightarrow> outcome \<times> ShareStore" where
  "shareGetHandler e now r st =
     (case getShareData e w0 r apiSharePrefix of
        Inl w \<Rightarrow> (Responded w, st)
      | Inr path \<Rightarrow>
          (case GetByPath st path of
             Inl err \<Rightarrow>
               if err = ErrNotExist then (Responded (renderJSON w0 (JSONLinks [])), st)
               else (Responded (httpErr w0 StatusInternalServerError), st)
           | Inr s \<Rightarrow>
               (case expire_loop now [0..<length s] s (length s) st of
                  (None, st') \<Rightarrow> (Panicked, st')
                | (Some s', st') \<Rightarrow> (Responded (renderJSON w0 (JSONLinks s')), st'))))"

subsection \<open>Creating a share link (sharePostHandler)\<close>

definition expiry_add :: "string \<Rightarrow> int \<Rightarrow> Duration" where
  "expiry_add unit num =
     (if unit = ''seconds'' then Second * Duration_of num
      else if unit = ''minutes'' then Minute * Duration_of num
      else if unit = ''days'' then Hour * 24 * Duration_of num
      else Hour * Duration_of num)"

definition sharePostHandler ::
  "('r, 'fs) Env \<Rightarrow> Time \<Rightarrow> Request \<Rightarrow> ShareStore \<Rightarrow> Response \<times> ShareStore" where
  "sharePostHandler e now r st =
     (case getShareData e w0 r apiSharePrefix of
        Inl w \<Rightarrow> (w, st)
      | Inr path \<Rightarrow>
          let expire = Get (Query r) ''expires'';
              unit = Get (Query r) ''unit'';
              found = (if expire = [] then
                         (case GetPermanent st path of
                            Inr s \<Rightarrow> Some s
                          | Inl err \<Rightarrow> None)
                       else None)
          in case found of
               Some s \<Rightarrow> (Write w0 (BaseURL e @ ''/share/'' @ Hash s), st)
             | None \<Rightarrow>
                 (case rand_Read e 6 of
                    Inl err \<Rightarrow> (httpErr w0 StatusInternalServerError, st)
                  | Inr bytes \<Rightarrow>
                      let str = EncodeToString e bytes;
                          s = \<lparr>Path = path, Hash = str, Expires = (expire \<noteq> []),
                               ExpireDate = zeroTime\<rparr>;
                          dated =
                            (if expire \<noteq> [] then
                               (case Atoi expire of
                                  Inl err \<Rightarrow> Inl err
                                | Inr num \<Rightarrow>
                                    Inr (s\<lparr>ExpireDate :=
                                             time_Add now (expiry_add unit num)\<rparr>))
                             else Inr s)
                      in case dated of
                           Inl err \<Rightarrow> (httpErr w0 StatusInternalServerError, st)
                         | Inr s' \<Rightarrow>
                             (case Save st s' of
                                (Some err, st') \<Rightarrow>
                                  (httpErr w0 StatusInternalServerError, st')
                              | (None, st') \<Rightarrow> (renderJSON w0 (JSONLink s'), st'))))"

subsection \<open>The Runner and the state of a resource request\<close>

text \<open>
  A resource handler works on the response, the filesystem state and, kept here to
  say which calls it made, the list of the filesystem methods and Runner runs it
  invoked, in order.
\<close>

datatype event =
    EvRemoveAll string
  | EvMkdirAll string nat
  | EvStat string
  | EvOpenFile string "open_flag list" nat
  | EvCopy string string
  | EvFileStat string
  | EvRename string string
  | EvRun string string string

record 'fs World =
  wr :: Response
  fsys :: "'fs"
  trace :: "event list"

definition call :: "event \<Rightarrow> 'fs World \<Rightarrow> 'fs World" where
  "call ev wd = wd\<lparr>trace := trace wd @ [ev]\<rparr>"

text \<open>
  Modelled from the spec: Runner.Run (the Runner is not among the sources). The spec,
  section 4.2: the wrapped operation runs exactly once, the hooks of the operation
  name fire around it, and the caller receives the operation's own result, augmented
  with any hook error. The operation's error comes first; without one the result is
  the error of the hooks, if any.
\<close>

definition Run ::
  "('r, 'fs) Env \<Rightarrow> ('fs World \<Rightarrow> error option \<times> 'fs World) \<Rightarrow> string \<Rightarrow> string \<Rightarrow> string
     \<Rightarrow> ('r, 'fs) User \<Rightarrow> 'fs World \<Rightarrow> error option \<times> 'fs World" where
  "Run e fn evt path dst user wd =
     (case fn (call (EvRun evt path dst) wd) of
        (Some err, wd') \<Rightarrow> (Some err, wd')
      | (None, wd') \<Rightarrow> (hook_error e evt path dst, wd'))"

definition respond :: "'fs World \<Rightarrow> nat \<Rightarrow> 'fs World" where
  "respond wd code = wd\<lparr>wr := httpErr (wr wd) code\<rparr>"

definition start :: "'fs \<Rightarrow> 'fs World" where
  "start fs = \<lparr>wr = w0, fsys = fs, trace = []\<rparr>"

subsection \<open>Reading a resource (resourceGetHandler, handleSortOrder)\<close>

definition SetCookie :: "Response \<Rightarrow> Cookie \<Rightarrow> Response" where
  "SetCookie w c = w\<lparr>cookies := cookies w @ [c]\<rparr>"

text \<open>\<open>r.Cookie(name)\<close>: the first cookie of that name, \<open>None\<close> for ErrNoCookie.\<close>

definition ReqCookie :: "Request \<Rightarrow> string \<Rightarrow> string option" where
  "ReqCookie r name = map_of (Cookies r) name"

definition pref_cookie :: "Request \<Rightarrow> string \<Rightarrow> string \<Rightarrow> string \<Rightarrow> Cookie" where
  "pref_cookie r name v scope =
     \<lparr>Name = name, Value = v, MaxAge = 31536000, CPath = scope, Secure = TLS r\<rparr>"

definition sortKey :: "Response \<Rightarrow> Request \<Rightarrow> string \<Rightarrow> string \<times> Response" where
  "sortKey w r scope =
     (let srt = Get (Query r) ''sort'' in
      if srt = [] then
        (case ReqCookie r ''sort'' of
           Some v \<Rightarrow> (v, w)
         | None \<Rightarrow> (''name'', w))
      else if srt = ''name'' \<or> srt = ''size'' then
        (srt, SetCookie w (pref_cookie r ''sort'' srt scope))
      else (srt, w))"

definition sortOrder :: "Response \<Rightarrow> Request \<Rightarrow> string \<Rightarrow> string \<times> Response" where
  "sortOrder w r scope =
     (let order = Get (Query r) ''order'' in
      if order = [] then
        (case ReqCookie r ''order'' of
           Some v \<Rightarrow> (v, w)
         | None \<Rightarrow> (''asc'', w))
      else if order = ''asc'' \<or> order = ''desc'' then
        (order, SetCookie w (pref_cookie r ''order'' order scope))
      else (order, w))"

text \<open>handleSortOrder: its two switch statements in turn; its error result is never set.\<close>

definition handleSortOrder ::
  "Response \<Rightarrow> Request \<Rightarrow> string \<Rightarrow> (string \<times> string \<times> error option) \<times> Response" where
  "handleSortOrder w r scope =
     (case sortKey w r scope of
        (srt, w1) \<Rightarrow>
          (case sortOrder w1 r scope of
             (order, w2) \<Rightarrow> ((srt, order, None), w2)))"

text \<open>
  Modelled from the spec: FileInfo.Checksum (types/file.go is not among the sources).
  The spec, section 4.2: if a checksum algorithm is requested, compute it; unsupported
  algorithm names fail with an "invalid option" signal. The supported algorithms are
  those of the table \<open>hashers\<close>; reading the file may fail with its own error.
\<close>

definition Checksum ::
  "('r, 'fs) Env \<Rightarrow> 'fs \<Rightarrow> FileInfo \<Rightarrow> string \<Rightarrow> error + FileInfo" where
  "Checksum e fs file algo =
     (case hashers e algo of
        None \<Rightarrow> Inl ErrInvalidOption
      | Some h \<Rightarrow>
          (case readFile e fs (FPath file) of
             Inl err \<Rightarrow> Inl err
           | Inr bytes \<Rightarrow> Inr (file\<lparr>Checksums := (algo, h bytes) # Checksums file\<rparr>)))"

text \<open>
  The steps of the read handler on a file before the checksum: subtitles for a video,
  and a text file is marked immutable for a user who may not modify.
\<close>

definition read_view :: "('r, 'fs) Env \<Rightarrow> 'fs \<Rightarrow> ('r, 'fs) User \<Rightarrow> FileInfo \<Rightarrow> FileInfo" where
  "read_view e fs user file =
     (let file1 = (if Type file = ''video'' then DetectSubtitles e fs file else file)
      in if \<not> Modify (Perm user) \<and> Type file1 = ''text''
         then file1\<lparr>Type := ''textImmutable''\<rparr> else file1)"

definition resourceGetHandler :: "('r, 'fs) Env \<Rightarrow> Request \<Rightarrow> 'fs \<Rightarrow> Response" where
  "resourceGetHandler e r fs =
     (case getResourceData e w0 r apiResourcePrefix of
        Inl w \<Rightarrow> w
      | Inr (path, user) \<Rightarrow>
          (case NewFileInfo e fs user path of
             Inl err \<Rightarrow> httpErr w0 (httpFsErr (Some err))
           | Inr file \<Rightarrow>
               if IsDir file then
                 (case handleSortOrder w0 r ''/'' of
                    ((srt, order, None), w) \<Rightarrow>
                      renderJSON w (JSONFile (file\<lparr>Listing :=
                        ApplySort e ((Listing file)\<lparr>Sort := srt, Order := order\<rparr>)\<rparr>))
                  | ((srt, order, Some err), w) \<Rightarrow> httpErr w StatusBadRequest)
               else
                 let file2 = read_view e fs user file;
                     checksum = Get (Query r) ''checksum''
                 in if checksum \<noteq> [] then
                      (case Checksum e fs file2 checksum of
                         Inl err \<Rightarrow>
                           if err = ErrInvalidOption then httpErr w0 StatusBadRequest
                           else httpErr w0 StatusInternalServerError
                       | Inr file3 \<Rightarrow> renderJSON w0 (JSONFile (file3\<lparr>Content := []\<rparr>)))
                    else renderJSON w0 (JSONFile file2)))"

subsection \<open>Deleting a resource (resourceDeleteHandler)\<close>

definition resourceDeleteHandler :: "('r, 'fs) Env \<Rightarrow> Request \<Rightarrow> 'fs \<Rightarrow> 'fs World" where
  "resourceDeleteHandler e r fs =
     (case getResourceData e w0 r apiResourcePrefix of
        Inl w \<Rightarrow> (start fs)\<lparr>wr := w\<rparr>
      | Inr (path, user) \<Rightarrow>
          if path = ''/'' \<or> \<not> Delete (Perm user) then respond (start fs) StatusForbidden
          else
            (case Run e
                    (\<lambda>wd. case fsRemoveAll (Fs user) (fsys (call (EvRemoveAll path) wd)) path of
                             (err, fs') \<Rightarrow> (err, (call (EvRemoveAll path) wd)\<lparr>fsys := fs'\<rparr>))
                    ''delete'' path [] user (start fs) of
               (Some err, wd) \<Rightarrow> respond wd (httpFsErr (Some err))
             | (None, wd) \<Rightarrow> respond wd StatusOK))"

subsection \<open>Writing a resource (resourcePostPutHandler)\<close>

definition hexdigit :: "nat \<Rightarrow> char" where
  "hexdigit n = ''0123456789abcdef'' ! n"

fun hex_nat :: "nat \<Rightarrow> string" where
  "hex_nat n = (if n < 16 then [hexdigit n] else hex_nat (n div 16) @ [hexdigit (n mod 16)])"

declare hex_nat.simps [simp del]

text \<open>The verb \<open>%x\<close> of fmt on a signed integer: a minus sign, then the magnitude.\<close>

definition hex_int :: "int \<Rightarrow> string" where
  "hex_int i = (if i < 0 then CHR ''-'' # hex_nat (nat (- i)) else hex_nat (nat i))"

definition etag_of :: "FileStat \<Rightarrow> string" where
  "etag_of info = ''\"'' @ hex_int (StatModTime info) @ hex_int (StatSize info) @ ''\"''"

definition SetHeader :: "Response \<Rightarrow> string \<Rightarrow> string \<Rightarrow> Response" where
  "SetHeader w k v = w\<lparr>header := (k, v) # filter (\<lambda>kv. fst kv \<noteq> k) (header w)\<rparr>"

definition upload_flags :: "open_flag list" where
  "upload_flags = [O_RDWR, O_CREATE, O_TRUNC]"

text \<open>The function the write handler gives the Runner.\<close>

definition upload_fn ::
  "('r, 'fs) User \<Rightarrow> string \<Rightarrow> string \<Rightarrow> 'fs World \<Rightarrow> error option \<times> 'fs World" where
  "upload_fn user path content wd =
     (let wd1 = call (EvOpenFile path upload_flags 509) wd in
      case fsOpenFile (Fs user) (fsys wd1) path upload_flags 509 of
        (Some err, fs1) \<Rightarrow> (Some err, wd1\<lparr>fsys := fs1\<rparr>)
      | (None, fs1) \<Rightarrow>
          (let wd2 = call (EvCopy path content) (wd1\<lparr>fsys := fs1\<rparr>) in
           case fsCopy (Fs user) (fsys wd2) path content of
             (Some err, fs2) \<Rightarrow> (Some err, wd2\<lparr>fsys := fs2\<rparr>)
           | (None, fs2) \<Rightarrow>
               (let wd3 = call (EvFileStat path) (wd2\<lparr>fsys := fs2\<rparr>) in
                case fsFileStat (Fs user) (fsys wd3) path of
                  Inl err \<Rightarrow> (Some err, wd3)
                | Inr info \<Rightarrow>
                    (None, wd3\<lparr>wr := SetHeader (wr wd3) ''ETag'' (etag_of info)\<rparr>))))"

definition upload ::
  "('r, 'fs) Env \<Rightarrow> Request \<Rightarrow> ('r, 'fs) User \<Rightarrow> string \<Rightarrow> 'fs World \<Rightarrow> 'fs World" where
  "upload e r user path wd =
     (case Run e (upload_fn user path (ReqBody r)) ''upload'' path [] user wd of
        (Some err, wd') \<Rightarrow> respond wd' (httpFsErr (Some err))
      | (None, wd') \<Rightarrow> respond wd' StatusOK)"

definition resourcePostPutHandler :: "('r, 'fs) Env \<Rightarrow> Request \<Rightarrow> 'fs \<Rightarrow> 'fs World" where
  "resourcePostPutHandler e r fs =
     (case getResourceData e w0 r apiResourcePrefix of
        Inl w \<Rightarrow> (start fs)\<lparr>wr := w\<rparr>
      | Inr (path, user) \<Rightarrow>
          if \<not> Create (Perm user) \<and> Method r = ''POST''
          then respond (start fs) StatusForbidden
          else if \<not> Modify (Perm user) \<and> Method r = ''PUT''
          then respond (start fs) StatusForbidden
          else if HasSuffix (URLPath r) ''/'' then
            (if Method r = ''PUT'' then respond (start fs) StatusMethodNotAllowed
             else
               (case fsMkdirAll (Fs user) fs path 509 of
                  (err, fs') \<Rightarrow>
                    respond ((call (EvMkdirAll path 509) (start fs))\<lparr>fsys := fs'\<rparr>)
                      (httpFsErr err)))
          else if Method r = ''POST'' \<and> Get (Query r) ''override'' \<noteq> ''true'' then
            (case fsStat (Fs user) fs path of
               Inr info \<Rightarrow> respond (call (EvStat path) (start fs)) StatusConflict
             | Inl err \<Rightarrow> upload e r user path (call (EvStat path) (start fs)))
          else upload e r user path (start fs))"

subsection \<open>Moving and copying a resource (resourcePatchHandler)\<close>

text \<open>
  The switch on the action: \<open>None\<close> is the Forbidden answer, otherwise the action the
  handler goes on with. A Go case does not fall through, so the case "rename" is
  empty.
\<close>

definition patch_action :: "Permissions \<Rightarrow> string \<Rightarrow> string option" where
  "patch_action perm action =
     (if action = ''copy'' then (if \<not> Create perm then None else Some action)
      else if action = ''rename'' then Some action
      else (if \<not> Rename perm then None else Some ''rename''))"

text \<open>The function the move/copy handler gives the Runner.\<close>

definition patch_fn ::
  "('r, 'fs) User \<Rightarrow> string \<Rightarrow> string \<Rightarrow> string \<Rightarrow> 'fs World \<Rightarrow> error option \<times> 'fs World" where
  "patch_fn user action src dst wd =
     (if action = ''copy'' then (None, wd)
      else
        (case fsRename (Fs user) (fsys (call (EvRename src dst) wd)) src dst of
           (err, fs') \<Rightarrow> (err, (call (EvRename src dst) wd)\<lparr>fsys := fs'\<rparr>)))"

definition resourcePatchHandler :: "('r, 'fs) Env \<Rightarrow> Request \<Rightarrow> 'fs \<Rightarrow> 'fs World" where
  "resourcePatchHandler e r fs =
     (case getResourceData e w0 r apiResourcePrefix of
        Inl w \<Rightarrow> (start fs)\<lparr>wr := w\<rparr>
      | Inr (src, user) \<Rightarrow>
          (case QueryUnescape (Get (Query r) ''destination'') of
             Inl err \<Rightarrow> respond (start fs) (httpFsErr (Some err))
           | Inr dst \<Rightarrow>
               if dst = ''/'' \<or> src = ''/'' then respond (start fs) StatusForbidden
               else
                 (case patch_action (Perm user) (Get (Query r) ''action'') of
                    None \<Rightarrow> respond (start fs) StatusForbidden
                  | Some action \<Rightarrow>
                      (case Run e (patch_fn user action src dst) ''action'' src dst user
                              (start fs) of
                         (err, wd) \<Rightarrow> respond wd (httpFsErr err)))))"

subsection \<open>An in-memory filesystem and sample requests\<close>

text \<open>
  A small filesystem kept in memory, used to run the handlers on concrete requests: a
  table from paths to nodes and the clock that stamps what is written.
\<close>

datatype node = Dir | File string int

record MemFs =
  nodes :: "(string \<times> node) list"
  clock :: int

definition put_node :: "MemFs \<Rightarrow> string \<Rightarrow> node \<Rightarrow> MemFs" where
  "put_node fs p n = fs\<lparr>nodes := (p, n) # filter (\<lambda>kv. fst kv \<noteq> p) (nodes fs)\<rparr>"

definition memStat :: "MemFs \<Rightarrow> string \<Rightarrow> error + FileStat" where
  "memStat fs p =
     (case map_of (nodes fs) p of
        None \<Rightarrow> Inl OsNotExist
      | Some Dir \<Rightarrow> Inr \<lparr>StatModTime = 0, StatSize = 0\<rparr>
      | Some (File c t) \<Rightarrow> Inr \<lparr>StatModTime = t, StatSize = int (length c)\<rparr>)"

definition memOpenFile ::
  "MemFs \<Rightarrow> string \<Rightarrow> open_flag list \<Rightarrow> nat \<Rightarrow> error option \<times> MemFs" where
  "memOpenFile fs p flags perm =
     (case map_of (nodes fs) p of
        None \<Rightarrow>
          if O_CREATE \<in> set flags then (None, put_node fs p (File [] (clock fs)))
          else (Some OsNotExist, fs)
      | Some Dir \<Rightarrow> (Some (OtherError ''is a directory''), fs)
      | Some (File c t) \<Rightarrow>
          if O_TRUNC \<in> set flags then (None, put_node fs p (File [] (clock fs)))
          else (None, fs))"

definition memCopy :: "MemFs \<Rightarrow> string \<Rightarrow> string \<Rightarrow> error option \<times> MemFs" where
  "memCopy fs p content = (None, put_node fs p (File content (clock fs)))"

definition memRemoveAll :: "MemFs \<Rightarrow> string \<Rightarrow> error option \<times> MemFs" where
  "memRemoveAll fs p =
     (None, fs\<lparr>nodes := filter (\<lambda>kv. fst kv \<noteq> p \<and> \<not> HasPrefix (fst kv) (p @ ''/''))
                             (nodes fs)\<rparr>)"

definition memMkdirAll :: "MemFs \<Rightarrow> string \<Rightarrow> nat \<Rightarrow> error option \<times> MemFs" where
  "memMkdirAll fs p perm =
     (case map_of (nodes fs) p of
        None \<Rightarrow> (None, put_node fs p Dir)
      | Some Dir \<Rightarrow> (None, fs)
      | Some (File c t) \<Rightarrow> (Some (OtherError ''not a directory''), fs))"

definition memRename :: "MemFs \<Rightarrow> string \<Rightarrow> string \<Rightarrow> error option \<times> MemFs" where
  "memRename fs src dst =
     (case map_of (nodes fs) src of
        None \<Rightarrow> (Some OsNotExist, fs)
      | Some n \<Rightarrow>
          (None, put_node (fs\<lparr>nodes := filter (\<lambda>kv. fst kv \<noteq> src) (nodes fs)\<rparr>) dst n))"

definition memFs :: "MemFs Fs" where
  "memFs = \<lparr>fsRemoveAll = memRemoveAll, fsMkdirAll = memMkdirAll, fsStat = memStat,
            fsOpenFile = memOpenFile, fsCopy = memCopy, fsFileStat = memStat,
            fsRename = memRename\<rparr>"

definition disk :: MemFs where
  "disk = \<lparr>nodes = [(''/'', Dir), (''/a'', File ''old'' 16), (''/d'', Dir)], clock = 255\<rparr>"

definition perms :: "bool \<Rightarrow> bool \<Rightarrow> bool \<Rightarrow> bool \<Rightarrow> Permissions" where
  "perms c r m d =
     \<lparr>Admin = False, Execute = False, Create = c, Rename = r, Modify = m, Delete = d,
      Share = True, Download = True, Commands = []\<rparr>"

definition alice :: "Permissions \<Rightarrow> (unit, MemFs) User" where
  "alice p =
     \<lparr>ID = 1, Username = ''alice'', Password = [], Scope = ''/srv'', Locale = ''en'',
      LockPassword = False, ViewMode = ''list'', Perm = p, Fs = memFs, Rules = []\<rparr>"

definition memFileInfo :: "MemFs \<Rightarrow> string \<Rightarrow> error + FileInfo" where
  "memFileInfo fs p =
     (case map_of (nodes fs) p of
        None \<Rightarrow> Inl OsNotExist
      | Some Dir \<Rightarrow>
          Inr \<lparr>FPath = p, FName = p, Size = 0, ModTime = 0, IsDir = True, Type = [],
               Content = [], Checksums = [],
               Listing = \<lparr>Items = map fst (nodes fs), Sort = [], Order = []\<rparr>\<rparr>
      | Some (File c t) \<Rightarrow>
          Inr \<lparr>FPath = p, FName = p, Size = int (length c), ModTime = t, IsDir = False,
               Type = ''text'', Content = c, Checksums = [],
               Listing = \<lparr>Items = [], Sort = [], Order = []\<rparr>\<rparr>)"

definition memRead :: "MemFs \<Rightarrow> string \<Rightarrow> error + string" where
  "memRead fs p =
     (case map_of (nodes fs) p of
        Some (File c t) \<Rightarrow> Inr c
      | _ \<Rightarrow> Inl OsNotExist)"

text \<open>
  A sample environment: the resolved user is \<open>alice\<close> with the given permissions, every
  path is allowed, no hook fails, and the table of checksum algorithms holds one
  entry (standing for SHA-1 by its length only).
\<close>

definition env :: "Permissions \<Rightarrow> (unit, MemFs) Env" where
  "env p =
     \<lparr>getUser = (\<lambda>r. Inr (alice p)), isAllowed = (\<lambda>url rules. True),
      BaseURL = ''http://host'', Join = (\<lambda>a b. a @ b),
      rand_Read = (\<lambda>n. Inr [1, 2, 3, 4, 5, 6]), EncodeToString = (\<lambda>bs. ''AQIDBAUG''),
      hook_error = (\<lambda>evt src dst. None),
      NewFileInfo = (\<lambda>fs u path. memFileInfo fs path),
      DetectSubtitles = (\<lambda>fs f. f), ApplySort = (\<lambda>l. l),
      hashers = map_of [(''sha1'', \<lambda>bytes. replicate 40 CHR ''0'')],
      readFile = memRead\<rparr>"

definition request :: "string \<Rightarrow> string \<Rightarrow> (string \<times> string) list \<Rightarrow> Request" where
  "request m p q =
     \<lparr>Method = m, URLPath = p, Query = q, Cookies = [], TLS = False, ReqBody = ''new''\<rparr>"

definition healthy :: "store_op \<Rightarrow> error option" where
  "healthy op = None"

definition lookup_fails :: "store_op \<Rightarrow> error option" where
  "lookup_fails op = (if op = OpGetPermanent then Some (OtherError ''storage'') else None)"

definition link :: "string \<Rightarrow> bool \<Rightarrow> Time \<Rightarrow> ShareLink" where
  "link h ex t = \<lparr>Path = ''/srv/a'', Hash = h, Expires = ex, ExpireDate = t\<rparr>"

lemmas status_defs = StatusOK_def StatusBadRequest_def StatusForbidden_def
  StatusNotFound_def StatusMethodNotAllowed_def StatusConflict_def
  StatusInternalServerError_def

lemmas sample_defs = env_def alice_def perms_def request_def memFs_def disk_def
  healthy_def lookup_fails_def link_def

lemmas resolve_defs = getShareData_def getResourceData_def IsAllowed_def
  apiSharePrefix_def apiResourcePrefix_def TrimPrefix_def TrimSuffix_def
  HasPrefix_def HasSuffix_def

text \<open>
  The spec's table of expiry units, in nanoseconds: seconds, minutes and days, and
  hours for any other unit.
\<close>

definition spec_unit_nanos :: "string \<Rightarrow> int" where
  "spec_unit_nanos unit =
     (if unit = ''seconds'' then 1000000000
      else if unit = ''minutes'' then 60 * 1000000000
      else if unit = ''days'' then 24 * (60 * (60 * 1000000000))
      else 60 * (60 * 1000000000))"

text \<open>The permanent links a store holds for a path.\<close>

definition permanent_for :: "ShareStore \<Rightarrow> string \<Rightarrow> ShareLink list" where
  "permanent_for st p = filter (\<lambda>l. Path l = p \<and> \<not> Expires l) (links st)"

lemmas share_defs = Let_def GetByPath_def GetPermanent_def Save_def DeleteHash_def Before_def
  remove_at_def renderJSON_def httpErr_def Write_def w0_def

lemmas mem_defs = memStat_def memOpenFile_def memCopy_def memRemoveAll_def memMkdirAll_def
  memRename_def put_node_def memFileInfo_def memRead_def

lemmas world_defs = Let_def start_def respond_def call_def Run_def httpErr_def w0_def

section \<open>Properties\<close>

subsection \<open>Auxiliary facts\<close>

lemma QueryUnescape_error:
  "QueryUnescape s = Inl err \<Longrightarrow> \<exists>x. err = EscapeError x"
proof (induction s arbitrary: err rule: QueryUnescape.induct)
  case 1
  then show ?case by simp
next
  case (2 c cs)
  show ?case
  proof (cases "c = CHR ''%''")
    case True
    with 2 show ?thesis
      by (auto split: list.splits option.splits sum.splits)
  next
    case False
    with 2 show ?thesis
      by (auto split: sum.splits)
  qed
qed

lemma httpFsErr_unescape:
  "QueryUnescape s = Inl err \<Longrightarrow> httpFsErr (Some err) = StatusInternalServerError"
  by (auto dest: QueryUnescape_error)

lemma httpFsErr_Some_not_OK: "httpFsErr (Some err) \<noteq> StatusOK"
  by (cases err) (simp_all add: status_defs)

subsection \<open>Listing share links\<close>

text \<open>
  C1. The claim: the list-links operation returns exactly the links that are not
  expired, deletes every expired link from the store and leaves every expired link
  out of the answer, also when two expired links are adjacent. The code does not: on
  the stored sequence h1, h2, h3 for one path, with h1 and h2 expired at time 10 and
  h3 permanent, the loop removes h1, moves h2 into the place it has just visited and
  goes on with the next index, so h2 is neither deleted nor left out. The theorem runs
  the handler on that store.
\<close>

theorem shareGet_skips_adjacent_expired:
  "shareGetHandler (env (perms True True True True)) 10 (request ''GET'' ''/api/share/a'' [])
     \<lparr>links = [link ''h1'' True 5, link ''h2'' True 6, link ''h3'' False zeroTime],
      fault = healthy\<rparr>
   = (Responded (renderJSON w0 (JSONLinks [link ''h2'' True 6, link ''h3'' False zeroTime])),
      \<lparr>links = [link ''h2'' True 6, link ''h3'' False zeroTime], fault = healthy\<rparr>)
   \<and> Expires (link ''h2'' True 6) \<and> Before (ExpireDate (link ''h2'' True 6)) 10"
  by (simp add: shareGetHandler_def resolve_defs sample_defs share_defs upt_rec)

text \<open>
  The same loop on two expired links alone panics (a slice bound out of range) after
  deleting both, and answers nothing. When no link of the path is expired, the
  handler answers with the stored links and leaves the store as it is.
\<close>

lemma shareGet_two_expired_panics:
  "shareGetHandler (env (perms True True True True)) 10 (request ''GET'' ''/api/share/a'' [])
     \<lparr>links = [link ''h1'' True 5, link ''h2'' True 6], fault = healthy\<rparr>
   = (Panicked, \<lparr>links = [], fault = healthy\<rparr>)"
  by (simp add: shareGetHandler_def resolve_defs sample_defs share_defs upt_rec)

lemma expire_loop_none_expired:
  assumes "\<forall>i \<in> set is. i < length arr
      \<and> \<not> (Expires (arr ! i) \<and> Before (ExpireDate (arr ! i)) now)"
  shows "expire_loop now is arr n st = (Some (take n arr), st)"
  using assms by (induction "is") (auto simp add: Let_def)

lemma shareGet_none_expired:
  assumes "getShareData e w0 r apiSharePrefix = Inr path"
      and "GetByPath st path = Inr s"
      and "\<forall>l \<in> set s. \<not> (Expires l \<and> Before (ExpireDate l) now)"
  shows "shareGetHandler e now r st = (Responded (renderJSON w0 (JSONLinks s)), st)"
proof -
  from assms(3) have "\<forall>i \<in> set [0..<length s]. i < length s
      \<and> \<not> (Expires (s ! i) \<and> Before (ExpireDate (s ! i)) now)"
    by simp
  then have "expire_loop now [0..<length s] s (length s) st = (Some (take (length s) s), st)"
    by (rule expire_loop_none_expired)
  with assms(1,2) show ?thesis
    by (simp add: shareGetHandler_def)
qed

subsection \<open>Moving and copying\<close>

text \<open>
  C2. The claim: a rename, chosen by action=rename or by leaving the action out, by a
  user without the rename capability is Forbidden and reaches neither the Runner nor
  the filesystem, and so is a copy by a user without the create capability. The code
  checks the rename capability only in the default case of its switch: with the
  explicit action=rename the case is empty. The theorem runs the handler for a user
  without the rename capability: the Runner runs and the file is renamed.
\<close>

theorem patch_explicit_rename_unchecked:
  "resourcePatchHandler (env (perms True False True True))
     (request ''PATCH'' ''/api/resources/a'' [(''action'', ''rename''), (''destination'', ''/b'')])
     disk
   = \<lparr>wr = httpErr w0 StatusOK,
      fsys = \<lparr>nodes = [(''/b'', File ''old'' 16), (''/'', Dir), (''/d'', Dir)], clock = 255\<rparr>,
      trace = [EvRun ''action'' ''/a'' ''/b'', EvRename ''/a'' ''/b'']\<rparr>
   \<and> \<not> Rename (Perm (alice (perms True False True True)))"
  by (simp add: resourcePatchHandler_def patch_action_def patch_fn_def resolve_defs sample_defs
      world_defs mem_defs Get_def)

text \<open>
  The explicit rename reaches the Runner and Rename for every user, whatever the rename
  capability. The other two branches of the switch do check: a copy without the create
  capability, and an absent or unknown action without the rename capability, are
  Forbidden before any call.
\<close>

lemma patch_explicit_rename_any_user:
  assumes "getResourceData e w0 r apiResourcePrefix = Inr (src, user)"
      and "QueryUnescape (Get (Query r) ''destination'') = Inr dst"
      and "src \<noteq> ''/''" and "dst \<noteq> ''/''"
      and "Get (Query r) ''action'' = ''rename''"
  shows "trace (resourcePatchHandler e r fs) = [EvRun ''action'' src dst, EvRename src dst]"
  using assms
  by (auto simp add: resourcePatchHandler_def patch_action_def patch_fn_def Run_def call_def
      respond_def start_def split: prod.splits option.splits)

lemma patch_permission_checked:
  assumes "getResourceData e w0 r apiResourcePrefix = Inr (src, user)"
      and "QueryUnescape (Get (Query r) ''destination'') = Inr dst"
      and "(Get (Query r) ''action'' = ''copy'' \<and> \<not> Create (Perm user))
         \<or> (Get (Query r) ''action'' \<noteq> ''copy'' \<and> Get (Query r) ''action'' \<noteq> ''rename''
             \<and> \<not> Rename (Perm user))"
  shows "resourcePatchHandler e r fs
     = \<lparr>wr = httpErr w0 StatusForbidden, fsys = fs, trace = []\<rparr>"
  using assms
  by (auto simp add: resourcePatchHandler_def patch_action_def respond_def start_def)

subsection \<open>Creating share links\<close>

text \<open>
  C3. The claim: a create request without expiry reuses the permanent link of the path
  and saves nothing, so at most one permanent link exists per path after any sequence
  of create requests, also when the lookup of the permanent link fails with a storage
  error. The code goes on to create a link after any error of the lookup. The theorem
  runs the handler on a store that holds the permanent link h3 of the path and whose
  lookup fails: a second permanent link of the same path is saved.
\<close>

theorem sharePost_duplicate_permanent:
  "sharePostHandler (env (perms True True True True)) 10 (request ''POST'' ''/api/share/a'' [])
     \<lparr>links = [link ''h3'' False zeroTime], fault = lookup_fails\<rparr>
   = (renderJSON w0 (JSONLink (link ''AQIDBAUG'' False zeroTime)),
      \<lparr>links = [link ''h3'' False zeroTime, link ''AQIDBAUG'' False zeroTime],
       fault = lookup_fails\<rparr>)"
  by (simp add: sharePostHandler_def resolve_defs sample_defs share_defs Get_def)

text \<open>
  When the lookup succeeds, the link found is reused and nothing is saved; and as long
  as the lookup meets no storage error, a create request keeps the store at no more
  than one permanent link per path.
\<close>

lemma permanent_link_reused:
  assumes "getShareData e w0 r apiSharePrefix = Inr path"
      and "Get (Query r) ''expires'' = []"
      and "GetPermanent st path = Inr s"
  shows "sharePostHandler e now r st = (Write w0 (BaseURL e @ ''/share/'' @ Hash s), st)"
  using assms by (simp add: sharePostHandler_def Let_def)

lemma length_filter_filter: "length (filter P (filter Q xs)) \<le> length (filter P xs)"
  by (induction xs) auto

lemma Save_permanent_for:
  assumes "Save st l = (err, st')"
  shows "length (permanent_for st' p)
     \<le> length (permanent_for st p) + (if Path l = p \<and> \<not> Expires l then 1 else 0)"
proof (cases "fault st OpSave")
  case None
  with assms have "links st' = filter (\<lambda>x. Hash x \<noteq> Hash l) (links st) @ [l]"
    by (auto simp add: Save_def)
  then show ?thesis
    using length_filter_filter [of "\<lambda>l. Path l = p \<and> \<not> Expires l" "\<lambda>x. Hash x \<noteq> Hash l" "links st"]
    by (auto simp add: permanent_for_def)
next
  case (Some e)
  with assms show ?thesis by (auto simp add: Save_def)
qed

lemma GetPermanent_not_found:
  assumes "fault st OpGetPermanent = None" and "GetPermanent st p = Inl err"
  shows "permanent_for st p = []"
  using assms by (auto simp add: GetPermanent_def permanent_for_def split: list.splits)

lemma at_most_one_permanent:
  assumes "fault st OpGetPermanent = None"
      and "\<forall>p. length (permanent_for st p) \<le> 1"
      and "sharePostHandler e now r st = (w, st')"
  shows "length (permanent_for st' p) \<le> 1"
proof (cases "getShareData e w0 r apiSharePrefix")
  case (Inl w')
  with assms show ?thesis by (simp add: sharePostHandler_def)
next
  case (Inr path)
  have old: "length (permanent_for st p) \<le> 1" using assms(2) by simp
  show ?thesis
  proof (cases "st' = st")
    case True
    with old show ?thesis by simp
  next
    case False
    with assms(3) Inr obtain l err where
      sv: "Save st l = (err, st')" and pl: "Path l = path"
      and ex: "Expires l = (Get (Query r) ''expires'' \<noteq> [])"
      and nf: "Get (Query r) ''expires'' = [] \<longrightarrow> (\<exists>er. GetPermanent st path = Inl er)"
      by (auto simp add: sharePostHandler_def Let_def
          split: sum.splits option.splits prod.splits if_splits)
    show ?thesis
    proof (cases "Path l = p \<and> \<not> Expires l")
      case True
      with ex nf pl obtain er where "GetPermanent st p = Inl er" by auto
      with assms(1) have "permanent_for st p = []" by (rule GetPermanent_not_found)
      with Save_permanent_for [OF sv, of p] True show ?thesis by simp
    next
      case False
      with Save_permanent_for [OF sv, of p] old show ?thesis by (simp split: if_splits)
    qed
  qed
qed

subsection \<open>The scope root\<close>

text \<open>
  C4, as amended. For a request whose resolved path is the root \<open>/\<close>, whatever the
  permissions of the user: a delete is answered Forbidden; a move or copy whose
  destination parameter unescapes is answered Forbidden when its source or its
  unescaped destination is \<open>/\<close>; and a move or copy whose destination does not
  unescape is answered with status 500. In all three cases no method of the
  filesystem and no Runner is called, and the filesystem is as before.
\<close>

theorem root_is_forbidden:
  assumes "getResourceData e w0 r apiResourcePrefix = Inr (path, user)"
  shows "(path = ''/'' \<longrightarrow>
            resourceDeleteHandler e r fs
              = \<lparr>wr = httpErr w0 StatusForbidden, fsys = fs, trace = []\<rparr>)
       \<and> (\<forall>dst. QueryUnescape (Get (Query r) ''destination'') = Inr dst
               \<and> (path = ''/'' \<or> dst = ''/'') \<longrightarrow>
            resourcePatchHandler e r fs
              = \<lparr>wr = httpErr w0 StatusForbidden, fsys = fs, trace = []\<rparr>)
       \<and> (\<forall>err. QueryUnescape (Get (Query r) ''destination'') = Inl err \<longrightarrow>
            resourcePatchHandler e r fs
              = \<lparr>wr = httpErr w0 StatusInternalServerError, fsys = fs, trace = []\<rparr>)"
proof (intro conjI allI impI)
  assume "path = ''/''"
  with assms show "resourceDeleteHandler e r fs
      = \<lparr>wr = httpErr w0 StatusForbidden, fsys = fs, trace = []\<rparr>"
    by (simp add: resourceDeleteHandler_def respond_def start_def)
next
  fix dst
  assume "QueryUnescape (Get (Query r) ''destination'') = Inr dst
      \<and> (path = ''/'' \<or> dst = ''/'')"
  with assms show "resourcePatchHandler e r fs
      = \<lparr>wr = httpErr w0 StatusForbidden, fsys = fs, trace = []\<rparr>"
    by (auto simp add: resourcePatchHandler_def respond_def start_def)
next
  fix err
  assume "QueryUnescape (Get (Query r) ''destination'') = Inl err"
  with assms show "resourcePatchHandler e r fs
      = \<lparr>wr = httpErr w0 StatusInternalServerError, fsys = fs, trace = []\<rparr>"
    by (simp add: resourcePatchHandler_def respond_def start_def httpFsErr_unescape)
qed

text \<open>
  C4, a request the theorem applies to: the path \<open>/api/resources/\<close> resolves to the
  root, the destination \<open>/b\<close> unescapes, and both handlers answer Forbidden.
\<close>

theorem root_is_forbidden_witness:
  "getResourceData (env (perms True True True True)) w0
       (request ''PATCH'' ''/api/resources/'' [(''destination'', ''/b'')]) apiResourcePrefix
     = Inr (''/'', alice (perms True True True True))
   \<and> QueryUnescape (Get (Query (request ''PATCH'' ''/api/resources/''
          [(''destination'', ''/b'')])) ''destination'') = Inr ''/b''
   \<and> resourceDeleteHandler (env (perms True True True True))
        (request ''PATCH'' ''/api/resources/'' [(''destination'', ''/b'')]) disk
     = \<lparr>wr = httpErr w0 StatusForbidden, fsys = disk, trace = []\<rparr>
   \<and> resourcePatchHandler (env (perms True True True True))
        (request ''PATCH'' ''/api/resources/'' [(''destination'', ''/b'')]) disk
     = \<lparr>wr = httpErr w0 StatusForbidden, fsys = disk, trace = []\<rparr>"
proof -
  let ?e = "env (perms True True True True)"
  let ?r = "request ''PATCH'' ''/api/resources/'' [(''destination'', ''/b'')]"
  have h: "getResourceData ?e w0 ?r apiResourcePrefix
      = Inr (''/'', alice (perms True True True True))"
    by (simp add: resolve_defs sample_defs)
  have u: "QueryUnescape (Get (Query ?r) ''destination'') = Inr ''/b''"
    by (simp add: request_def Get_def)
  note t = root_is_forbidden [OF h, of disk]
  from t have d: "resourceDeleteHandler ?e ?r disk
      = \<lparr>wr = httpErr w0 StatusForbidden, fsys = disk, trace = []\<rparr>"
    by blast
  from t u have p: "resourcePatchHandler ?e ?r disk
      = \<lparr>wr = httpErr w0 StatusForbidden, fsys = disk, trace = []\<rparr>"
    by blast
  from h u d p show ?thesis by blast
qed

text \<open>
  C4, where the claim as stated fails: the source resolves to the root and the
  destination \<open>%zz\<close> does not unescape; the answer is status 500, not Forbidden.
\<close>

theorem patch_root_bad_destination:
  "getResourceData (env (perms True True True True)) w0
       (request ''PATCH'' ''/api/resources/'' [(''destination'', ''%zz'')]) apiResourcePrefix
     = Inr (''/'', alice (perms True True True True))
   \<and> status (wr (resourcePatchHandler (env (perms True True True True))
        (request ''PATCH'' ''/api/resources/'' [(''destination'', ''%zz'')]) disk))
     = StatusInternalServerError
   \<and> status (wr (resourcePatchHandler (env (perms True True True True))
        (request ''PATCH'' ''/api/resources/'' [(''destination'', ''%zz'')]) disk))
     \<noteq> StatusForbidden"
  by (simp add: resourcePatchHandler_def resolve_defs sample_defs
      world_defs Get_def unhex_def status_defs)

subsection \<open>Writing files\<close>

lemma upload_begins:
  "take 2 (trace (upload e r user path (start fs)))
     = [EvRun ''upload'' path [], EvOpenFile path [O_RDWR, O_CREATE, O_TRUNC] 509]"
  by (auto simp add: upload_def upload_fn_def upload_flags_def Run_def call_def start_def
      respond_def Let_def split: prod.splits option.splits sum.splits)

lemma upload_success:
  assumes "fsOpenFile (Fs user) fs path [O_RDWR, O_CREATE, O_TRUNC] 509 = (None, fs1)"
      and "fsCopy (Fs user) fs1 path (ReqBody r) = (None, fs2)"
      and "fsFileStat (Fs user) fs2 path = Inr info"
      and "hook_error e ''upload'' path [] = None"
  shows "upload e r user path (start fs)
     = \<lparr>wr = \<lparr>status = StatusOK, header = [(''ETag'', etag_of info)], cookies = [],
               body = NoBody\<rparr>,
        fsys = fs2,
        trace = [EvRun ''upload'' path [], EvOpenFile path [O_RDWR, O_CREATE, O_TRUNC] 509,
                 EvCopy path (ReqBody r), EvFileStat path]\<rparr>"
  using assms
  by (simp add: upload_def upload_fn_def upload_flags_def Run_def call_def start_def respond_def
      Let_def SetHeader_def httpErr_def w0_def)

lemma upload_OK_tag:
  assumes "status (wr (upload e r user path (start fs))) = StatusOK"
  shows "\<exists>info. fsFileStat (Fs user) (fsys (upload e r user path (start fs))) path = Inr info
       \<and> header (wr (upload e r user path (start fs))) = [(''ETag'', etag_of info)]"
  using assms
  by (auto simp add: upload_def upload_fn_def upload_flags_def Run_def call_def start_def
      respond_def Let_def SetHeader_def httpErr_def w0_def httpFsErr_Some_not_OK
      split: prod.splits option.splits sum.splits)

text \<open>
  C5. A write request of a user that getResourceData resolves, on a path without
  trailing separator that exists (Stat succeeds). A POST by a user with the create
  capability whose override parameter is not \<open>true\<close> is answered Conflict; its only
  filesystem call is that Stat and the filesystem is as before. A POST with
  override=true by such a user, and a PUT by a user with the modify capability, runs
  the upload through the Runner: it opens the path with O_RDWR, O_CREATE and O_TRUNC,
  copies the request body into it and stats it. When these succeed and no hook fails,
  the answer is 200 with the ETag made of the hexadecimal modification time and size
  of the file as written; and whenever the answer is 200, its ETag is that of the
  file's state in the resulting filesystem.
\<close>

theorem write_existing_target:
  assumes "getResourceData e w0 r apiResourcePrefix = Inr (path, user)"
      and "\<not> HasSuffix (URLPath r) ''/''"
      and "fsStat (Fs user) fs path = Inr info"
  shows "(Method r = ''POST'' \<and> Create (Perm user) \<and> Get (Query r) ''override'' \<noteq> ''true'' \<longrightarrow>
            resourcePostPutHandler e r fs
              = \<lparr>wr = httpErr w0 StatusConflict, fsys = fs, trace = [EvStat path]\<rparr>)
       \<and> ((Method r = ''POST'' \<and> Create (Perm user) \<and> Get (Query r) ''override'' = ''true'')
           \<or> (Method r = ''PUT'' \<and> Modify (Perm user)) \<longrightarrow>
            take 2 (trace (resourcePostPutHandler e r fs))
              = [EvRun ''upload'' path [], EvOpenFile path [O_RDWR, O_CREATE, O_TRUNC] 509]
          \<and> (\<forall>fs1 fs2 info'.
                fsOpenFile (Fs user) fs path [O_RDWR, O_CREATE, O_TRUNC] 509 = (None, fs1)
                \<and> fsCopy (Fs user) fs1 path (ReqBody r) = (None, fs2)
                \<and> fsFileStat (Fs user) fs2 path = Inr info'
                \<and> hook_error e ''upload'' path [] = None \<longrightarrow>
                resourcePostPutHandler e r fs
                  = \<lparr>wr = \<lparr>status = StatusOK,
                            header = [(''ETag'', ''\"'' @ hex_int (StatModTime info')
                                        @ hex_int (StatSize info') @ ''\"'')],
                            cookies = [], body = NoBody\<rparr>,
                     fsys = fs2,
                     trace = [EvRun ''upload'' path [],
                              EvOpenFile path [O_RDWR, O_CREATE, O_TRUNC] 509,
                              EvCopy path (ReqBody r), EvFileStat path]\<rparr>)
          \<and> (status (wr (resourcePostPutHandler e r fs)) = StatusOK \<longrightarrow>
                (\<exists>info'. fsFileStat (Fs user) (fsys (resourcePostPutHandler e r fs)) path
                            = Inr info'
                   \<and> header (wr (resourcePostPutHandler e r fs))
                       = [(''ETag'', etag_of info')])))"
proof (intro conjI impI)
  assume "Method r = ''POST'' \<and> Create (Perm user) \<and> Get (Query r) ''override'' \<noteq> ''true''"
  with assms show "resourcePostPutHandler e r fs
      = \<lparr>wr = httpErr w0 StatusConflict, fsys = fs, trace = [EvStat path]\<rparr>"
    by (simp add: resourcePostPutHandler_def respond_def call_def start_def)
next
  assume "(Method r = ''POST'' \<and> Create (Perm user) \<and> Get (Query r) ''override'' = ''true'')
      \<or> (Method r = ''PUT'' \<and> Modify (Perm user))"
  with assms have u: "resourcePostPutHandler e r fs = upload e r user path (start fs)"
    by (auto simp add: resourcePostPutHandler_def)
  show "take 2 (trace (resourcePostPutHandler e r fs))
      = [EvRun ''upload'' path [], EvOpenFile path [O_RDWR, O_CREATE, O_TRUNC] 509]"
    unfolding u by (rule upload_begins)
  show "\<forall>fs1 fs2 info'.
      fsOpenFile (Fs user) fs path [O_RDWR, O_CREATE, O_TRUNC] 509 = (None, fs1)
      \<and> fsCopy (Fs user) fs1 path (ReqBody r) = (None, fs2)
      \<and> fsFileStat (Fs user) fs2 path = Inr info'
      \<and> hook_error e ''upload'' path [] = None \<longrightarrow>
      resourcePostPutHandler e r fs
        = \<lparr>wr = \<lparr>status = StatusOK,
                  header = [(''ETag'', ''\"'' @ hex_int (StatModTime info')
                              @ hex_int (StatSize info') @ ''\"'')],
                  cookies = [], body = NoBody\<rparr>,
           fsys = fs2,
           trace = [EvRun ''upload'' path [],
                    EvOpenFile path [O_RDWR, O_CREATE, O_TRUNC] 509,
                    EvCopy path (ReqBody r), EvFileStat path]\<rparr>"
    unfolding u by (auto simp add: upload_success etag_of_def)
  assume "status (wr (resourcePostPutHandler e r fs)) = StatusOK"
  then show "\<exists>info'. fsFileStat (Fs user) (fsys (resourcePostPutHandler e r fs)) path = Inr info'
      \<and> header (wr (resourcePostPutHandler e r fs)) = [(''ETag'', etag_of info')]"
    unfolding u by (rule upload_OK_tag)
qed

lemma etag_sample: "etag_of \<lparr>StatModTime = 255, StatSize = 3\<rparr> = ''\"ff3\"''"
  by (simp add: etag_of_def hex_int_def hex_nat.simps hexdigit_def)

text \<open>
  C5, on the in-memory filesystem, where \<open>/a\<close> is a file of three bytes: the POST
  without override is answered Conflict and changes nothing; the PUT replaces the
  content by the body \<open>new\<close>, stamps it with the clock 255 and answers with the tag
  \<open>"ff3"\<close> (255 is \<open>ff\<close>, the size 3).
\<close>

theorem write_existing_target_witness:
  "getResourceData (env (perms True True True True)) w0
       (request ''POST'' ''/api/resources/a'' []) apiResourcePrefix
     = Inr (''/a'', alice (perms True True True True))
   \<and> fsStat memFs disk ''/a'' = Inr \<lparr>StatModTime = 16, StatSize = 3\<rparr>
   \<and> resourcePostPutHandler (env (perms True True True True))
        (request ''POST'' ''/api/resources/a'' []) disk
     = \<lparr>wr = httpErr w0 StatusConflict, fsys = disk, trace = [EvStat ''/a'']\<rparr>
   \<and> resourcePostPutHandler (env (perms True True True True))
        (request ''PUT'' ''/api/resources/a'' []) disk
     = \<lparr>wr = \<lparr>status = StatusOK, header = [(''ETag'', ''\"ff3\"'')], cookies = [],
               body = NoBody\<rparr>,
        fsys = \<lparr>nodes = [(''/a'', File ''new'' 255), (''/'', Dir), (''/d'', Dir)],
                clock = 255\<rparr>,
        trace = [EvRun ''upload'' ''/a'' [], EvOpenFile ''/a'' [O_RDWR, O_CREATE, O_TRUNC] 509,
                 EvCopy ''/a'' ''new'', EvFileStat ''/a'']\<rparr>"
proof -
  let ?e = "env (perms True True True True)"
  let ?u = "alice (perms True True True True)"
  let ?post = "request ''POST'' ''/api/resources/a'' []"
  let ?put = "request ''PUT'' ''/api/resources/a'' []"
  let ?fs1 = "\<lparr>nodes = [(''/a'', File [] 255), (''/'', Dir), (''/d'', Dir)], clock = 255\<rparr>"
  let ?fs2 = "\<lparr>nodes = [(''/a'', File ''new'' 255), (''/'', Dir), (''/d'', Dir)], clock = 255\<rparr>"
  let ?i = "\<lparr>StatModTime = 255, StatSize = 3\<rparr>"
  have h1: "getResourceData ?e w0 ?post apiResourcePrefix = Inr (''/a'', ?u)"
    by (simp add: resolve_defs sample_defs)
  have h2: "getResourceData ?e w0 ?put apiResourcePrefix = Inr (''/a'', ?u)"
    by (simp add: resolve_defs sample_defs)
  have n1: "\<not> HasSuffix (URLPath ?post) ''/''" and n2: "\<not> HasSuffix (URLPath ?put) ''/''"
    by (simp_all add: request_def HasSuffix_def)
  have s0: "fsStat memFs disk ''/a'' = Inr \<lparr>StatModTime = 16, StatSize = 3\<rparr>"
    by (simp add: memFs_def memStat_def disk_def)
  have s: "fsStat (Fs ?u) disk ''/a'' = Inr \<lparr>StatModTime = 16, StatSize = 3\<rparr>"
    using s0 by (simp add: alice_def)
  have c1: "Method ?post = ''POST'' \<and> Create (Perm ?u)
      \<and> Get (Query ?post) ''override'' \<noteq> ''true''"
    by (simp add: request_def alice_def perms_def Get_def)
  have c2: "Method ?put = ''PUT'' \<and> Modify (Perm ?u)"
    by (simp add: request_def alice_def perms_def)
  have o: "fsOpenFile (Fs ?u) disk ''/a'' [O_RDWR, O_CREATE, O_TRUNC] 509 = (None, ?fs1)
      \<and> fsCopy (Fs ?u) ?fs1 ''/a'' (ReqBody ?put) = (None, ?fs2)
      \<and> fsFileStat (Fs ?u) ?fs2 ''/a'' = Inr ?i
      \<and> hook_error ?e ''upload'' ''/a'' [] = None"
    by (simp add: sample_defs mem_defs)
  have t: "''\"'' @ hex_int (StatModTime ?i) @ hex_int (StatSize ?i) @ ''\"'' = ''\"ff3\"''"
    using etag_sample by (simp add: etag_of_def)
  from write_existing_target [OF h1 n1 s] c1
  have a: "resourcePostPutHandler ?e ?post disk
      = \<lparr>wr = httpErr w0 StatusConflict, fsys = disk, trace = [EvStat ''/a'']\<rparr>"
    by blast
  from write_existing_target [OF h2 n2 s] c2 o
  have "resourcePostPutHandler ?e ?put disk
      = \<lparr>wr = \<lparr>status = StatusOK,
                header = [(''ETag'', ''\"'' @ hex_int (StatModTime ?i)
                            @ hex_int (StatSize ?i) @ ''\"'')],
                cookies = [], body = NoBody\<rparr>,
         fsys = ?fs2,
         trace = [EvRun ''upload'' ''/a'' [], EvOpenFile ''/a'' [O_RDWR, O_CREATE, O_TRUNC] 509,
                  EvCopy ''/a'' (ReqBody ?put), EvFileStat ''/a'']\<rparr>"
    by blast
  then have b: "resourcePostPutHandler ?e ?put disk
      = \<lparr>wr = \<lparr>status = StatusOK, header = [(''ETag'', ''\"ff3\"'')], cookies = [],
                body = NoBody\<rparr>,
         fsys = ?fs2,
         trace = [EvRun ''upload'' ''/a'' [], EvOpenFile ''/a'' [O_RDWR, O_CREATE, O_TRUNC] 509,
                  EvCopy ''/a'' ''new'', EvFileStat ''/a'']\<rparr>"
    unfolding t by (simp add: request_def)
  from h1 s0 a b show ?thesis by blast
qed

subsection \<open>A malformed expiry\<close>

text \<open>
  C6, as amended. A create-share-link request that getShareData resolves and whose
  expires parameter is present but is not an integer for strconv.Atoi is answered
  with status 500 (internal server error), and nothing is saved.
\<close>

theorem bad_expiry_internal_error:
  assumes "getShareData e w0 r apiSharePrefix = Inr path"
      and "Get (Query r) ''expires'' \<noteq> []"
      and "Atoi (Get (Query r) ''expires'') = Inl err"
  shows "sharePostHandler e now r st = (httpErr w0 StatusInternalServerError, st)"
  using assms by (simp add: sharePostHandler_def Let_def split: sum.splits)

text \<open>C6, a request the theorem applies to: expires=1x.\<close>

theorem bad_expiry_internal_error_witness:
  "getShareData (env (perms True True True True)) w0
       (request ''POST'' ''/api/share/a'' [(''expires'', ''1x'')]) apiSharePrefix = Inr ''/srv/a''
   \<and> Atoi ''1x'' = Inl (NumError ''invalid syntax'')
   \<and> sharePostHandler (env (perms True True True True)) 10
        (request ''POST'' ''/api/share/a'' [(''expires'', ''1x'')]) \<lparr>links = [], fault = healthy\<rparr>
     = (httpErr w0 StatusInternalServerError, \<lparr>links = [], fault = healthy\<rparr>)"
proof -
  let ?e = "env (perms True True True True)"
  let ?r = "request ''POST'' ''/api/share/a'' [(''expires'', ''1x'')]"
  have p: "getShareData ?e w0 ?r apiSharePrefix = Inr ''/srv/a''"
    by (simp add: resolve_defs sample_defs)
  have g: "Get (Query ?r) ''expires'' = ''1x''"
    by (simp add: request_def Get_def)
  have a: "Atoi ''1x'' = Inl (NumError ''invalid syntax'')"
    by (simp add: Atoi_def strip_sign_def digit_of_def)
  from bad_expiry_internal_error [OF p, of "NumError ''invalid syntax''" 10
      "\<lparr>links = [], fault = healthy\<rparr>"] p g a
  show ?thesis by simp
qed

text \<open>
  C6, where the claim as stated fails: expires=abc is answered with status 500, which
  is not the client error 400.
\<close>

theorem bad_expiry_not_client_error:
  "Get (Query (request ''POST'' ''/api/share/a'' [(''expires'', ''abc'')])) ''expires'' = ''abc''
   \<and> Atoi ''abc'' = Inl (NumError ''invalid syntax'')
   \<and> status (fst (sharePostHandler (env (perms True True True True)) 10
        (request ''POST'' ''/api/share/a'' [(''expires'', ''abc'')])
        \<lparr>links = [], fault = healthy\<rparr>)) = StatusInternalServerError
   \<and> status (fst (sharePostHandler (env (perms True True True True)) 10
        (request ''POST'' ''/api/share/a'' [(''expires'', ''abc'')])
        \<lparr>links = [], fault = healthy\<rparr>)) \<noteq> StatusBadRequest"
  by (simp add: sharePostHandler_def resolve_defs sample_defs share_defs Get_def Atoi_def
      strip_sign_def digit_of_def status_defs)

subsection \<open>Sort key and order of a listing\<close>

lemma handleSortOrder_eq:
  "handleSortOrder w r scope =
     (((if Get (Query r) ''sort'' = []
        then (case ReqCookie r ''sort'' of Some v \<Rightarrow> v | None \<Rightarrow> ''name'')
        else Get (Query r) ''sort''),
       (if Get (Query r) ''order'' = []
        then (case ReqCookie r ''order'' of Some v \<Rightarrow> v | None \<Rightarrow> ''asc'')
        else Get (Query r) ''order''),
       None),
      w\<lparr>cookies := cookies w
           @ (if Get (Query r) ''sort'' = ''name'' \<or> Get (Query r) ''sort'' = ''size''
              then [\<lparr>Name = ''sort'', Value = Get (Query r) ''sort'', MaxAge = 31536000,
                     CPath = scope, Secure = TLS r\<rparr>] else [])
           @ (if Get (Query r) ''order'' = ''asc'' \<or> Get (Query r) ''order'' = ''desc''
              then [\<lparr>Name = ''order'', Value = Get (Query r) ''order'', MaxAge = 31536000,
                     CPath = scope, Secure = TLS r\<rparr>] else [])\<rparr>)"
  by (auto simp add: handleSortOrder_def sortKey_def sortOrder_def SetCookie_def pref_cookie_def
      Let_def split: option.splits)

text \<open>
  C7, as amended. The listing of a directory is rendered with status 200. An absent
  (empty) sort parameter gives the sort cookie of the request, or \<open>name\<close> without one;
  an absent order parameter gives the order cookie, or \<open>asc\<close>. Any other value of the
  parameter, valid or not, is itself the sort key or order handed to the listing. A
  cookie is set only for a valid value (name or size; asc or desc), with that value, a
  maximal age of 31536000 seconds and the path \<open>/\<close>; no cookie is set for an invalid
  one, and the request is not rejected.
\<close>

theorem sort_order_preference:
  assumes "getResourceData e w0 r apiResourcePrefix = Inr (path, user)"
      and "NewFileInfo e fs user path = Inr file"
      and "IsDir file"
  shows "resourceGetHandler e r fs =
     \<lparr>status = StatusOK, header = [],
      cookies =
        (if Get (Query r) ''sort'' = ''name'' \<or> Get (Query r) ''sort'' = ''size''
         then [\<lparr>Name = ''sort'', Value = Get (Query r) ''sort'', MaxAge = 31536000,
                CPath = ''/'', Secure = TLS r\<rparr>] else [])
        @ (if Get (Query r) ''order'' = ''asc'' \<or> Get (Query r) ''order'' = ''desc''
           then [\<lparr>Name = ''order'', Value = Get (Query r) ''order'', MaxAge = 31536000,
                  CPath = ''/'', Secure = TLS r\<rparr>] else []),
      body = JSONFile (file\<lparr>Listing := ApplySort e ((Listing file)
        \<lparr>Sort := (if Get (Query r) ''sort'' = []
                   then (case ReqCookie r ''sort'' of Some v \<Rightarrow> v | None \<Rightarrow> ''name'')
                   else Get (Query r) ''sort''),
         Order := (if Get (Query r) ''order'' = []
                   then (case ReqCookie r ''order'' of Some v \<Rightarrow> v | None \<Rightarrow> ''asc'')
                   else Get (Query r) ''order'')\<rparr>)\<rparr>)\<rparr>"
  using assms
  by (simp add: resourceGetHandler_def handleSortOrder_eq renderJSON_def w0_def)

text \<open>
  C7, a request the theorem applies to: sort=size is valid and persisted, order=up is
  not valid, is not persisted and is the order of the listing.
\<close>

theorem sort_order_preference_witness:
  "getResourceData (env (perms True True True True)) w0
       (request ''GET'' ''/api/resources/d'' [(''sort'', ''size''), (''order'', ''up'')])
       apiResourcePrefix
     = Inr (''/d'', alice (perms True True True True))
   \<and> resourceGetHandler (env (perms True True True True))
        (request ''GET'' ''/api/resources/d'' [(''sort'', ''size''), (''order'', ''up'')]) disk
     = \<lparr>status = StatusOK, header = [],
        cookies = [\<lparr>Name = ''sort'', Value = ''size'', MaxAge = 31536000, CPath = ''/'',
                    Secure = False\<rparr>],
        body = JSONFile
         \<lparr>FPath = ''/d'', FName = ''/d'', Size = 0, ModTime = 0, IsDir = True, Type = [],
          Content = [], Checksums = [],
          Listing = \<lparr>Items = [''/'', ''/a'', ''/d''], Sort = ''size'', Order = ''up''\<rparr>\<rparr>\<rparr>"
proof -
  let ?e = "env (perms True True True True)"
  let ?r = "request ''GET'' ''/api/resources/d'' [(''sort'', ''size''), (''order'', ''up'')]"
  let ?f = "\<lparr>FPath = ''/d'', FName = ''/d'', Size = 0, ModTime = 0, IsDir = True, Type = [],
      Content = [], Checksums = [],
      Listing = \<lparr>Items = [''/'', ''/a'', ''/d''], Sort = [], Order = []\<rparr>\<rparr>"
  have h: "getResourceData ?e w0 ?r apiResourcePrefix
      = Inr (''/d'', alice (perms True True True True))"
    by (simp add: resolve_defs sample_defs)
  have f: "NewFileInfo ?e disk (alice (perms True True True True)) ''/d'' = Inr ?f"
    by (simp add: sample_defs mem_defs)
  have d: "IsDir ?f" by simp
  have g: "Get (Query ?r) ''sort'' = ''size''" "Get (Query ?r) ''order'' = ''up''"
    "TLS ?r = False" "ApplySort ?e = (\<lambda>l. l)"
    by (simp_all add: request_def Get_def env_def)
  from sort_order_preference [OF h f d] h show ?thesis
    by (simp add: g)
qed

text \<open>
  C7, where the claim as stated fails: with sort=bogus and no cookie, the sort key
  that handleSortOrder returns and the listing carries is \<open>bogus\<close>, not the default.
\<close>

theorem invalid_sort_is_active:
  "handleSortOrder w0 (request ''GET'' ''/api/resources/d'' [(''sort'', ''bogus'')]) ''/''
     = ((''bogus'', ''asc'', None), w0)
   \<and> resourceGetHandler (env (perms True True True True))
        (request ''GET'' ''/api/resources/d'' [(''sort'', ''bogus'')]) disk
     = renderJSON w0 (JSONFile
         \<lparr>FPath = ''/d'', FName = ''/d'', Size = 0, ModTime = 0, IsDir = True, Type = [],
          Content = [], Checksums = [],
          Listing = \<lparr>Items = [''/'', ''/a'', ''/d''], Sort = ''bogus'', Order = ''asc''\<rparr>\<rparr>)"
  by (simp add: resourceGetHandler_def handleSortOrder_eq resolve_defs sample_defs mem_defs
      renderJSON_def w0_def Get_def ReqCookie_def)

subsection \<open>Copy\<close>

text \<open>
  C8. A move or copy request that getResourceData resolves, whose destination
  unescapes and whose source and destination are not the root. With action=copy and
  the create capability, the function given to the Runner returns no error and
  leaves the response, the filesystem and the list of calls as they were; the handler
  calls the Runner once, under the name \<open>action\<close>, and no method of the filesystem;
  the filesystem is as before, and the status is that of the error of the Runner's
  hooks: 200 when they report none. Whenever the switch lets the request through, as
  a copy or as a rename, the first call is the Runner's run under the name \<open>action\<close>.
\<close>

theorem copy_runs_nothing:
  assumes "getResourceData e w0 r apiResourcePrefix = Inr (src, user)"
      and "QueryUnescape (Get (Query r) ''destination'') = Inr dst"
      and "src \<noteq> ''/''" and "dst \<noteq> ''/''"
  shows "(Get (Query r) ''action'' = ''copy'' \<and> Create (Perm user) \<longrightarrow>
            patch_fn user ''copy'' src dst wd = (None, wd)
          \<and> resourcePatchHandler e r fs
              = \<lparr>wr = httpErr w0 (httpFsErr (hook_error e ''action'' src dst)),
                 fsys = fs, trace = [EvRun ''action'' src dst]\<rparr>
          \<and> (hook_error e ''action'' src dst = None \<longrightarrow>
                resourcePatchHandler e r fs
                  = \<lparr>wr = httpErr w0 StatusOK, fsys = fs,
                     trace = [EvRun ''action'' src dst]\<rparr>))
       \<and> (\<forall>action. patch_action (Perm user) (Get (Query r) ''action'') = Some action \<longrightarrow>
            (action = ''copy'' \<or> action = ''rename'')
          \<and> take 1 (trace (resourcePatchHandler e r fs)) = [EvRun ''action'' src dst])"
proof (intro conjI allI impI)
  show "patch_fn user ''copy'' src dst wd = (None, wd)"
    by (simp add: patch_fn_def)
next
  assume a: "Get (Query r) ''action'' = ''copy'' \<and> Create (Perm user)"
  with assms show c: "resourcePatchHandler e r fs
      = \<lparr>wr = httpErr w0 (httpFsErr (hook_error e ''action'' src dst)),
         fsys = fs, trace = [EvRun ''action'' src dst]\<rparr>"
    by (simp add: resourcePatchHandler_def patch_action_def patch_fn_def Run_def call_def
        respond_def start_def)
  assume "hook_error e ''action'' src dst = None"
  with c show "resourcePatchHandler e r fs
      = \<lparr>wr = httpErr w0 StatusOK, fsys = fs, trace = [EvRun ''action'' src dst]\<rparr>"
    by simp
next
  fix action
  assume "patch_action (Perm user) (Get (Query r) ''action'') = Some action"
  then show "action = ''copy'' \<or> action = ''rename''"
    by (auto simp add: patch_action_def split: if_splits)
next
  fix action
  assume p: "patch_action (Perm user) (Get (Query r) ''action'') = Some action"
  show "take 1 (trace (resourcePatchHandler e r fs)) = [EvRun ''action'' src dst]"
  proof (cases "action = ''copy''")
    case True
    with assms p show ?thesis
      by (simp add: resourcePatchHandler_def patch_fn_def Run_def call_def respond_def start_def
          split: option.splits)
  next
    case False
    with assms p show ?thesis
      by (auto simp add: resourcePatchHandler_def patch_fn_def Run_def call_def respond_def
          start_def split: option.splits prod.splits)
  qed
qed

text \<open>
  C8, a request the theorem applies to: copying \<open>/a\<close> to \<open>/b\<close> is answered 200, and
  the filesystem still holds \<open>/a\<close> only.
\<close>

theorem copy_runs_nothing_witness:
  "getResourceData (env (perms True False True True)) w0
       (request ''PATCH'' ''/api/resources/a'' [(''action'', ''copy''), (''destination'', ''/b'')])
       apiResourcePrefix
     = Inr (''/a'', alice (perms True False True True))
   \<and> resourcePatchHandler (env (perms True False True True))
       (request ''PATCH'' ''/api/resources/a'' [(''action'', ''copy''), (''destination'', ''/b'')])
       disk
     = \<lparr>wr = httpErr w0 StatusOK, fsys = disk, trace = [EvRun ''action'' ''/a'' ''/b'']\<rparr>"
proof -
  let ?r = "request ''PATCH'' ''/api/resources/a''
      [(''action'', ''copy''), (''destination'', ''/b'')]"
  let ?e = "env (perms True False True True)"
  have h: "getResourceData ?e w0 ?r apiResourcePrefix
      = Inr (''/a'', alice (perms True False True True))"
    by (simp add: resolve_defs sample_defs)
  have u: "QueryUnescape (Get (Query ?r) ''destination'') = Inr ''/b''"
    by (simp add: request_def Get_def)
  have a: "Get (Query ?r) ''action'' = ''copy''
      \<and> Create (Perm (alice (perms True False True True)))"
    by (simp add: request_def Get_def alice_def perms_def)
  have k: "hook_error ?e ''action'' ''/a'' ''/b'' = None"
    by (simp add: env_def)
  have n: "''/a'' \<noteq> ''/''" "''/b'' \<noteq> ''/''" by simp_all
  note t = copy_runs_nothing [OF h u n, of _ disk]
  from t a k have "resourcePatchHandler ?e ?r disk
      = \<lparr>wr = httpErr w0 StatusOK, fsys = disk, trace = [EvRun ''action'' ''/a'' ''/b'']\<rparr>"
    by blast
  with h show ?thesis by blast
qed

subsection \<open>The expiry date of a created link\<close>

lemma expiry_add_of_int:
  "expiry_add unit num = word_of_int (spec_unit_nanos unit * num)"
  by (simp add: expiry_add_def spec_unit_nanos_def Second_def Minute_def Hour_def Duration_of_def)

lemma time_Add_expiry:
  "time_Add now (expiry_add unit num) = now + signed_take_bit 63 (spec_unit_nanos unit * num)"
  by (simp only: time_Add_def expiry_add_of_int sint_sbintrunc') simp

lemma sharePost_created:
  assumes "getShareData e w0 r apiSharePrefix = Inr path"
      and "sharePostHandler e now r st = (w, st')"
      and "body w = JSONLink s"
  shows "Path s = path \<and> Expires s = (Get (Query r) ''expires'' \<noteq> [])
       \<and> s \<in> set (links st')
       \<and> (Get (Query r) ''expires'' = [] \<longrightarrow> ExpireDate s = zeroTime)
       \<and> (\<forall>num. Get (Query r) ''expires'' \<noteq> [] \<and> Atoi (Get (Query r) ''expires'') = Inr num \<longrightarrow>
             ExpireDate s = time_Add now (expiry_add (Get (Query r) ''unit'') num))"
  using assms
  by (auto simp add: sharePostHandler_def Let_def Save_def httpErr_def renderJSON_def Write_def
      w0_def split: sum.splits option.splits prod.splits if_splits)

text \<open>
  C9, as amended. When a create-share-link request that getShareData resolves is
  answered with the created link, the link's Expires flag is true exactly when the
  expires parameter is non-empty; and for an expires parameter that is the integer
  \<open>num\<close>, its ExpireDate is the current time plus the product of \<open>num\<close> and the unit
  (one second, one minute, twenty-four hours, or one hour for any other unit) taken
  as a signed 64-bit count of nanoseconds, wrapping around: it is the current time
  plus the exact product whenever that product lies between \<open>-2^63\<close> and \<open>2^63 - 1\<close>
  nanoseconds (some 292 years).
\<close>

theorem share_expiry_date:
  assumes "getShareData e w0 r apiSharePrefix = Inr path"
      and "sharePostHandler e now r st = (w, st')"
      and "body w = JSONLink s"
  shows "Expires s = (Get (Query r) ''expires'' \<noteq> [])
       \<and> (\<forall>num. Get (Query r) ''expires'' \<noteq> [] \<and> Atoi (Get (Query r) ''expires'') = Inr num \<longrightarrow>
             ExpireDate s
               = now + signed_take_bit 63 (spec_unit_nanos (Get (Query r) ''unit'') * num)
           \<and> (- (2 ^ 63) \<le> spec_unit_nanos (Get (Query r) ''unit'') * num
               \<and> spec_unit_nanos (Get (Query r) ''unit'') * num < 2 ^ 63 \<longrightarrow>
                ExpireDate s = now + spec_unit_nanos (Get (Query r) ''unit'') * num))"
proof (intro conjI allI impI)
  from sharePost_created [OF assms]
  show "Expires s = (Get (Query r) ''expires'' \<noteq> [])" by blast
next
  fix num
  assume a: "Get (Query r) ''expires'' \<noteq> [] \<and> Atoi (Get (Query r) ''expires'') = Inr num"
  with sharePost_created [OF assms]
  have "ExpireDate s = time_Add now (expiry_add (Get (Query r) ''unit'') num)" by blast
  then show d: "ExpireDate s
      = now + signed_take_bit 63 (spec_unit_nanos (Get (Query r) ''unit'') * num)"
    by (simp add: time_Add_expiry)
  assume "- (2 ^ 63) \<le> spec_unit_nanos (Get (Query r) ''unit'') * num
      \<and> spec_unit_nanos (Get (Query r) ''unit'') * num < 2 ^ 63"
  then have "signed_take_bit 63 (spec_unit_nanos (Get (Query r) ''unit'') * num)
      = spec_unit_nanos (Get (Query r) ''unit'') * num"
    by (intro signed_take_bit_int_eq_self) simp_all
  with d show "ExpireDate s = now + spec_unit_nanos (Get (Query r) ''unit'') * num"
    by simp
qed

text \<open>
  C9, a request the theorem applies to: expires=10 and unit=minutes at time 5 creates
  a link that expires at 5 plus ten minutes.
\<close>

theorem share_expiry_date_witness:
  "getShareData (env (perms True True True True)) w0
       (request ''POST'' ''/api/share/a'' [(''expires'', ''10''), (''unit'', ''minutes'')])
       apiSharePrefix = Inr ''/srv/a''
   \<and> sharePostHandler (env (perms True True True True)) 5
        (request ''POST'' ''/api/share/a'' [(''expires'', ''10''), (''unit'', ''minutes'')])
        \<lparr>links = [], fault = healthy\<rparr>
     = (renderJSON w0 (JSONLink (link ''AQIDBAUG'' True 600000000005)),
        \<lparr>links = [link ''AQIDBAUG'' True 600000000005], fault = healthy\<rparr>)
   \<and> Atoi ''10'' = Inr 10
   \<and> Expires (link ''AQIDBAUG'' True 600000000005)
   \<and> ExpireDate (link ''AQIDBAUG'' True 600000000005) = 5 + spec_unit_nanos ''minutes'' * 10"
proof -
  let ?r = "request ''POST'' ''/api/share/a'' [(''expires'', ''10''), (''unit'', ''minutes'')]"
  let ?e = "env (perms True True True True)"
  let ?s = "link ''AQIDBAUG'' True 600000000005"
  have p: "getShareData ?e w0 ?r apiSharePrefix = Inr ''/srv/a''"
    by (simp add: resolve_defs sample_defs)
  have a: "Atoi ''10'' = Inr 10"
    by (simp add: Atoi_def strip_sign_def digit_of_def)
  have g: "Get (Query ?r) ''expires'' = ''10''" "Get (Query ?r) ''unit'' = ''minutes''"
    by (simp_all add: request_def Get_def)
  have h: "sharePostHandler ?e 5 ?r \<lparr>links = [], fault = healthy\<rparr>
      = (renderJSON w0 (JSONLink ?s), \<lparr>links = [?s], fault = healthy\<rparr>)"
    by (simp add: sharePostHandler_def resolve_defs sample_defs share_defs Get_def Atoi_def
      strip_sign_def digit_of_def time_Add_def expiry_add_def Second_def Minute_def
      Duration_of_def)
  have b: "body (renderJSON w0 (JSONLink ?s)) = JSONLink ?s"
    by (simp add: renderJSON_def)
  have r: "- (2 ^ 63) \<le> spec_unit_nanos ''minutes'' * 10
      \<and> spec_unit_nanos ''minutes'' * 10 < 2 ^ 63"
    by (simp add: spec_unit_nanos_def)
  from share_expiry_date [OF p h b] g a r
  have "Expires ?s \<and> ExpireDate ?s = 5 + spec_unit_nanos ''minutes'' * 10"
    by simp
  with p h a show ?thesis by blast
qed

text \<open>
  C9, where the claim as stated fails: expires=10000000000 with unit=seconds at time
  10. The amount is a valid integer, its product with one second exceeds 63 bits and
  wraps around; the created link expires some 267 years before the current time, not
  10000000000 seconds after it.
\<close>

theorem share_expiry_overflow:
  "Atoi ''10000000000'' = Inr 10000000000
   \<and> sharePostHandler (env (perms True True True True)) 10
        (request ''POST'' ''/api/share/a'' [(''expires'', ''10000000000''), (''unit'', ''seconds'')])
        \<lparr>links = [], fault = healthy\<rparr>
     = (renderJSON w0 (JSONLink (link ''AQIDBAUG'' True (- 8446744073709551606))),
        \<lparr>links = [link ''AQIDBAUG'' True (- 8446744073709551606)], fault = healthy\<rparr>)
   \<and> (- 8446744073709551606 :: int) \<noteq> 10 + 10000000000 * spec_unit_nanos ''seconds''"
  by (simp add: sharePostHandler_def resolve_defs sample_defs share_defs Get_def Atoi_def
      strip_sign_def digit_of_def time_Add_def expiry_add_def Second_def Duration_of_def
      spec_unit_nanos_def)

subsection \<open>Checksums\<close>

text \<open>
  C10. A read request that getResourceData resolves, on a file (not a directory), that
  names a checksum algorithm. When the name is not in the table of supported
  algorithms, the answer is status 400, the client error of an invalid option. When
  the checksum is computed, the answer is the file with the checksum and with empty
  content; and every answer with status 200 to such a request carries a file whose
  content is empty.
\<close>

theorem checksum_response:
  assumes "getResourceData e w0 r apiResourcePrefix = Inr (path, user)"
      and "NewFileInfo e fs user path = Inr file"
      and "\<not> IsDir file"
      and "Get (Query r) ''checksum'' \<noteq> []"
  shows "(hashers e (Get (Query r) ''checksum'') = None \<longrightarrow>
            resourceGetHandler e r fs = httpErr w0 StatusBadRequest)
       \<and> (\<forall>f. Checksum e fs (read_view e fs user file) (Get (Query r) ''checksum'') = Inr f \<longrightarrow>
            resourceGetHandler e r fs = renderJSON w0 (JSONFile (f\<lparr>Content := []\<rparr>)))
       \<and> (status (resourceGetHandler e r fs) = StatusOK \<longrightarrow>
            (\<exists>f. body (resourceGetHandler e r fs) = JSONFile f \<and> Content f = []))"
proof (intro conjI allI impI)
  assume "hashers e (Get (Query r) ''checksum'') = None"
  with assms show "resourceGetHandler e r fs = httpErr w0 StatusBadRequest"
    by (simp add: resourceGetHandler_def Checksum_def Let_def)
next
  fix f
  assume "Checksum e fs (read_view e fs user file) (Get (Query r) ''checksum'') = Inr f"
  with assms show "resourceGetHandler e r fs = renderJSON w0 (JSONFile (f\<lparr>Content := []\<rparr>))"
    by (simp add: resourceGetHandler_def Let_def)
next
  assume "status (resourceGetHandler e r fs) = StatusOK"
  with assms show "\<exists>f. body (resourceGetHandler e r fs) = JSONFile f \<and> Content f = []"
    by (auto simp add: resourceGetHandler_def Let_def httpErr_def renderJSON_def w0_def
        status_defs split: sum.splits if_splits)
qed

text \<open>
  C10, two requests the theorem applies to, on the file \<open>/a\<close> with content \<open>old\<close>:
  checksum=crc is not supported and is answered 400; checksum=sha1 is answered with
  the checksum and no content.
\<close>

theorem checksum_response_witness:
  "getResourceData (env (perms True True True True)) w0
       (request ''GET'' ''/api/resources/a'' [(''checksum'', ''crc'')]) apiResourcePrefix
     = Inr (''/a'', alice (perms True True True True))
   \<and> hashers (env (perms True True True True)) ''crc'' = None
   \<and> resourceGetHandler (env (perms True True True True))
        (request ''GET'' ''/api/resources/a'' [(''checksum'', ''crc'')]) disk
     = httpErr w0 StatusBadRequest
   \<and> resourceGetHandler (env (perms True True True True))
        (request ''GET'' ''/api/resources/a'' [(''checksum'', ''sha1'')]) disk
     = renderJSON w0 (JSONFile
         \<lparr>FPath = ''/a'', FName = ''/a'', Size = 3, ModTime = 16, IsDir = False,
          Type = ''text'', Content = [],
          Checksums = [(''sha1'', replicate 40 CHR ''0'')],
          Listing = \<lparr>Items = [], Sort = [], Order = []\<rparr>\<rparr>)"
proof -
  let ?e = "env (perms True True True True)"
  let ?u = "alice (perms True True True True)"
  let ?crc = "request ''GET'' ''/api/resources/a'' [(''checksum'', ''crc'')]"
  let ?sha = "request ''GET'' ''/api/resources/a'' [(''checksum'', ''sha1'')]"
  let ?f = "\<lparr>FPath = ''/a'', FName = ''/a'', Size = 3, ModTime = 16, IsDir = False,
      Type = ''text'', Content = ''old'', Checksums = [],
      Listing = \<lparr>Items = [], Sort = [], Order = []\<rparr>\<rparr>"
  have h1: "getResourceData ?e w0 ?crc apiResourcePrefix = Inr (''/a'', ?u)"
    by (simp add: resolve_defs sample_defs)
  have h2: "getResourceData ?e w0 ?sha apiResourcePrefix = Inr (''/a'', ?u)"
    by (simp add: resolve_defs sample_defs)
  have f: "NewFileInfo ?e disk ?u ''/a'' = Inr ?f"
    by (simp add: sample_defs mem_defs)
  have d: "\<not> IsDir ?f" by simp
  have c1: "Get (Query ?crc) ''checksum'' \<noteq> []" and c2: "Get (Query ?sha) ''checksum'' \<noteq> []"
    by (simp_all add: request_def Get_def)
  have n: "hashers ?e (Get (Query ?crc) ''checksum'') = None"
    by (simp add: request_def Get_def env_def)
  have n': "hashers ?e ''crc'' = None"
    by (simp add: env_def)
  have k: "Checksum ?e disk (read_view ?e disk ?u ?f) (Get (Query ?sha) ''checksum'')
      = Inr (?f\<lparr>Checksums := [(''sha1'', replicate 40 CHR ''0'')]\<rparr>)"
    by (simp add: Checksum_def read_view_def sample_defs mem_defs Get_def)
  from checksum_response [OF h1 f d c1] n
  have a: "resourceGetHandler ?e ?crc disk = httpErr w0 StatusBadRequest"
    by blast
  from checksum_response [OF h2 f d c2] k
  have "resourceGetHandler ?e ?sha disk
      = renderJSON w0 (JSONFile (?f\<lparr>Checksums := [(''sha1'', replicate 40 CHR ''0'')],
          Content := []\<rparr>))"
    by blast
  then have b: "resourceGetHandler ?e ?sha disk
      = renderJSON w0 (JSONFile
         \<lparr>FPath = ''/a'', FName = ''/a'', Size = 3, ModTime = 16, IsDir = False,
          Type = ''text'', Content = [],
          Checksums = [(''sha1'', replicate 40 CHR ''0'')],
          Listing = \<lparr>Items = [], Sort = [], Order = []\<rparr>\<rparr>)"
    by simp
  from h1 n' a b show ?thesis by blast
qed

end
